theory Spec2Isabelle
  imports Main
begin

section \<open>Feature pyramid network utilities (deepcell/utils/fpn\_utils.py)\<close>

text \<open>
  The file wires layers of a deep-learning framework into a feature pyramid network with
  a semantic segmentation head. The embedding keeps the graph symbolic: a tensor is either
  a handle supplied by the caller or the output of a layer applied to a list of tensors.
  Every function of the file becomes a state-passing function over the list of layer
  outputs created so far, in creation order, and returns either a Python exception or
  its value.
\<close>

subsection \<open>Exceptions\<close>

type_synonym fw_error = string

datatype error =
    NameError string
  | IndexError
  | ValueError
  | AttributeError
  | KeyError
  | FrameworkError fw_error

fun is_framework_error :: "error \<Rightarrow> bool" where
  "is_framework_error (FrameworkError e) = True"
| "is_framework_error _ = False"

subsection \<open>Layers and symbolic tensors\<close>

text \<open>
  The keyword arguments of \<^verbatim>\<open>Conv2D\<close> that the file passes. An integer
  \<^verbatim>\<open>kernel_size=3\<close> or \<^verbatim>\<open>strides=2\<close> is the pair the framework
  normalises it to. A layer built without \<^verbatim>\<open>name=\<close> has the name \<open>None\<close>: the
  framework picks one from its own registry.
\<close>

record conv_args =
  filters :: int
  kernel_size :: "int \<times> int"
  strides :: "int \<times> int"
  padding :: string
  data_format :: "string option"
  conv_name :: "string option"

datatype layer =
    Input "int option list"
  | ImageNormalization2D "string option"
  | TensorProduct int
  | Conv2D conv_args
  | UpsampleLike "string option"
  | UpSampling2D "int \<times> int"
  | Add "string option"
  | Activation string "string option"
  | Reshape "int option list"
  | BatchNormalization int
  | Softmax int
  | Concatenate int
  | MaxPool2D "int \<times> int"

text \<open>
  Where each layer class is imported from: lines 35 to 43 import from
  \<^verbatim>\<open>tensorflow.python.keras\<close>, lines 46 and 47 from the repository's own package
  \<^verbatim>\<open>deepcell.layers\<close>.
\<close>

datatype origin = Keras | Deepcell

fun layer_origin :: "layer \<Rightarrow> origin" where
  "layer_origin (Input sh) = Keras"
| "layer_origin (ImageNormalization2D m) = Deepcell"
| "layer_origin (TensorProduct n) = Deepcell"
| "layer_origin (Conv2D a) = Keras"
| "layer_origin (UpsampleLike n) = Deepcell"
| "layer_origin (UpSampling2D sz) = Keras"
| "layer_origin (Add n) = Keras"
| "layer_origin (Activation f n) = Keras"
| "layer_origin (Reshape sh) = Keras"
| "layer_origin (BatchNormalization ax) = Keras"
| "layer_origin (Softmax ax) = Keras"
| "layer_origin (Concatenate ax) = Keras"
| "layer_origin (MaxPool2D sz) = Keras"

datatype tensor = Ext nat | Out layer "tensor list"

datatype keras_model = Model tensor tensor string



subsection \<open>The framework\<close>

text \<open>
  What the framework decides is a parameter: whether it accepts a layer on given inputs
  (\<open>None\<close>) or raises, whether it accepts a model, the static dimensions of a tensor
  (\<^verbatim>\<open>t.shape[i].value\<close>, which may raise), and \<^verbatim>\<open>K.image_data_format()\<close>.
\<close>

record framework =
  layer_check :: "layer \<Rightarrow> tensor list \<Rightarrow> fw_error option"
  model_check :: "tensor \<Rightarrow> tensor \<Rightarrow> string \<Rightarrow> fw_error option"
  shape_dim :: "tensor \<Rightarrow> int \<Rightarrow> fw_error + int option"
  image_data_format :: string

definition permissive :: "framework \<Rightarrow> bool" where
  "permissive fw \<longleftrightarrow> (\<forall>l xs. layer_check fw l xs = None)"

subsection \<open>Graph building with exceptions\<close>

type_synonym graph = "tensor list"

type_synonym 'a build = "graph \<Rightarrow> (error + 'a) \<times> graph"

definition ret :: "'a \<Rightarrow> 'a build" where
  "ret x s = (Inr x, s)"

definition raise :: "error \<Rightarrow> 'a build" where
  "raise e s = (Inl e, s)"

definition seq :: "'a build \<Rightarrow> ('a \<Rightarrow> 'b build) \<Rightarrow> 'b build" where
  "seq m f s = (case m s of (Inl e, s') \<Rightarrow> (Inl e, s') | (Inr x, s') \<Rightarrow> f x s')"

definition call_layer :: "framework \<Rightarrow> layer \<Rightarrow> tensor list \<Rightarrow> tensor build" where
  "call_layer fw l xs s =
     (case layer_check fw l xs of
        Some e \<Rightarrow> (Inl (FrameworkError e), s)
      | None \<Rightarrow> (Inr (Out l xs), s @ [Out l xs]))"

subsection \<open>Python built-ins used by the file\<close>

text \<open>
  A string is a list of code points below 256; the only decimal digits among them, for
  \<^verbatim>\<open>\d\<close> and for \<^verbatim>\<open>int\<close>, are the ASCII digits.
\<close>

definition is_digit :: "char \<Rightarrow> bool" where
  "is_digit c \<longleftrightarrow> c \<in> set ''0123456789''"

definition digit_val :: "char \<Rightarrow> nat" where
  "digit_val c = of_char c - 48"

definition digits_val :: "string \<Rightarrow> nat" where
  "digits_val ds = foldl (\<lambda>a c. 10 * a + digit_val c) 0 ds"

text \<open>\<^verbatim>\<open>re.findall(r'\d+', N)\<close>: the maximal runs of digits, left to right.\<close>

function findall_digits :: "string \<Rightarrow> string list" where
  "findall_digits [] = []"
| "findall_digits (c # cs) =
     (if is_digit c
      then (c # takeWhile is_digit cs) # findall_digits (dropWhile is_digit cs)
      else findall_digits cs)"
  by pat_completeness auto
termination
  by (relation "measure length") (auto simp: length_dropWhile_le less_Suc_eq_le)

text \<open>\<^verbatim>\<open>int(re.findall(r'\d+', N)[0])\<close>: \<^verbatim>\<open>[0]\<close> raises on an empty list.\<close>

definition first_level :: "string \<Rightarrow> error + int" where
  "first_level N =
     (case findall_digits N of [] \<Rightarrow> Inl IndexError | d # _ \<Rightarrow> Inr (int (digits_val d)))"

text \<open>\<^verbatim>\<open>str\<close> of an integer.\<close>

definition digit_char :: "nat \<Rightarrow> char" where
  "digit_char n = char_of (48 + n)"

function str_nat :: "nat \<Rightarrow> string" where
  "str_nat n = (if n < 10 then [digit_char n] else str_nat (n div 10) @ [digit_char (n mod 10)])"
  by pat_completeness auto
termination
  by (relation "measure id") auto

definition str_int :: "int \<Rightarrow> string" where
  "str_int i = (if i < 0 then CHR ''-'' # str_nat (nat (- i)) else str_nat (nat i))"

subsection \<open>\<^verbatim>\<open>create_pyramid_level\<close>\<close>

definition conv_1x1 :: "int \<Rightarrow> string \<Rightarrow> layer" where
  "conv_1x1 feature_size nm =
     Conv2D \<lparr>filters = feature_size, kernel_size = (1, 1), strides = (1, 1),
             padding = ''same'', data_format = None, conv_name = Some nm\<rparr>"

definition conv_3x3 :: "int \<Rightarrow> string \<Rightarrow> layer" where
  "conv_3x3 feature_size nm =
     Conv2D \<lparr>filters = feature_size, kernel_size = (3, 3), strides = (1, 1),
             padding = ''same'', data_format = None, conv_name = Some nm\<rparr>"

definition create_pyramid_level ::
  "framework \<Rightarrow> tensor \<Rightarrow> tensor option \<Rightarrow> tensor option \<Rightarrow> int \<Rightarrow> int
     \<Rightarrow> (tensor \<times> tensor option) build" where
  "create_pyramid_level fw backbone_input upsamplelike_input addition_input level feature_size =
     (let reduced_name = ''C'' @ str_int level @ ''_reduced'';
          upsample_name = ''P'' @ str_int level @ ''_upsampled'';
          addition_name = ''P'' @ str_int level @ ''_merged'';
          final_name = ''P'' @ str_int level
      in
      seq (call_layer fw (conv_1x1 feature_size reduced_name) [backbone_input]) (\<lambda>pyramid.
      seq (case upsamplelike_input of
             Some u \<Rightarrow> seq (call_layer fw (UpsampleLike (Some upsample_name)) [pyramid, u])
                          (\<lambda>t. ret (Some t))
           | None \<Rightarrow> ret None) (\<lambda>pyramid_upsample.
      seq (case addition_input of
             Some a \<Rightarrow> call_layer fw (Add (Some addition_name)) [pyramid, a]
           | None \<Rightarrow> ret pyramid) (\<lambda>pyramid'.
      seq (call_layer fw (conv_3x3 feature_size final_name) [pyramid']) (\<lambda>pyramid_final.
      ret (pyramid_final, pyramid_upsample))))))"

subsection \<open>\<^verbatim>\<open>semantic_upsample\<close>\<close>

definition conv_up :: "int \<Rightarrow> layer" where
  "conv_up n_filters =
     Conv2D \<lparr>filters = n_filters, kernel_size = (3, 3), strides = (1, 1),
             padding = ''same'', data_format = Some ''channels_last'', conv_name = None\<rparr>"

text \<open>
  The body of \<^verbatim>\<open>for i in range(n_upsample)\<close>, run over the list of remaining
  indices.
\<close>

fun upsample_loop ::
  "framework \<Rightarrow> int \<Rightarrow> int \<Rightarrow> tensor option \<Rightarrow> nat list \<Rightarrow> tensor \<Rightarrow> tensor build" where
  "upsample_loop fw n_upsample n_filters target [] x = ret x"
| "upsample_loop fw n_upsample n_filters target (i # is) x =
     seq (call_layer fw (conv_up n_filters) [x]) (\<lambda>x.
     seq (case target of
            Some t \<Rightarrow> if int i = n_upsample - 1
                      then call_layer fw (UpsampleLike None) [x, t]
                      else call_layer fw (UpSampling2D (2, 2)) [x]
          | None \<Rightarrow> call_layer fw (UpSampling2D (2, 2)) [x]) (\<lambda>x.
     upsample_loop fw n_upsample n_filters target is x))"

definition semantic_upsample ::
  "framework \<Rightarrow> tensor \<Rightarrow> int \<Rightarrow> int \<Rightarrow> tensor option \<Rightarrow> tensor build" where
  "semantic_upsample fw x n_upsample n_filters target =
     seq (upsample_loop fw n_upsample n_filters target [0..<nat n_upsample] x) (\<lambda>x.
     if n_upsample = 0
     then seq (call_layer fw (conv_up n_filters) [x]) (\<lambda>x.
          case target of
            Some t \<Rightarrow> call_layer fw (UpsampleLike None) [x, t]
          | None \<Rightarrow> ret x)
     else ret x)"

subsection \<open>\<^verbatim>\<open>semantic_prediction\<close>\<close>

definition lift :: "error + 'a \<Rightarrow> 'a build" where
  "lift r = (case r of Inl e \<Rightarrow> raise e | Inr x \<Rightarrow> ret x)"

definition lift_fw :: "fw_error + 'a \<Rightarrow> 'a build" where
  "lift_fw r = (case r of Inl e \<Rightarrow> raise (FrameworkError e) | Inr x \<Rightarrow> ret x)"

definition py_last :: "'a list \<Rightarrow> error + 'a" where
  "py_last xs = (case xs of [] \<Rightarrow> Inl IndexError | _ # _ \<Rightarrow> Inr (last xs))"

fun add_all :: "framework \<Rightarrow> tensor \<Rightarrow> tensor list \<Rightarrow> tensor build" where
  "add_all fw semantic_sum [] = ret semantic_sum"
| "add_all fw semantic_sum (semantic_feature # rest) =
     seq (call_layer fw (Add None) [semantic_sum, semantic_feature]) (\<lambda>semantic_sum.
     add_all fw semantic_sum rest)"

definition semantic_prediction ::
  "framework \<Rightarrow> string list \<Rightarrow> tensor list \<Rightarrow> int \<Rightarrow> tensor option \<Rightarrow> int \<Rightarrow> int \<Rightarrow> int
     \<Rightarrow> tensor build" where
  "semantic_prediction fw semantic_names semantic_features target_level input_target
       n_filters n_dense n_classes =
     (let channel_axis = (if image_data_format fw = ''channels_first'' then 1 else - 1) in
      case semantic_features of
        [] \<Rightarrow> raise IndexError
      | first_feature # rest \<Rightarrow>
      seq (add_all fw first_feature rest) (\<lambda>semantic_sum.
      seq (lift (py_last semantic_names)) (\<lambda>last_name.
      seq (lift (first_level last_name)) (\<lambda>min_level.
      let n_upsample = min_level - target_level in
      seq (semantic_upsample fw semantic_sum n_upsample 256 input_target) (\<lambda>x.
      seq (case input_target of
             None \<Rightarrow> raise AttributeError
           | Some it \<Rightarrow>
               seq (lift_fw (shape_dim fw it 1)) (\<lambda>h.
               seq (lift_fw (shape_dim fw it 2)) (\<lambda>w.
               seq (lift_fw (shape_dim fw x (- 1))) (\<lambda>c.
               call_layer fw (Reshape [h, w, c]) [x])))) (\<lambda>x.
      seq (call_layer fw (TensorProduct n_dense) [x]) (\<lambda>x.
      seq (call_layer fw (BatchNormalization (- 1)) [x]) (\<lambda>x.
      seq (call_layer fw (Activation ''relu'' None) [x]) (\<lambda>x.
      seq (call_layer fw (TensorProduct n_classes) [x]) (\<lambda>x.
      call_layer fw (Softmax channel_axis) [x]))))))))))"

subsection \<open>\<^verbatim>\<open>__create_semantic_head\<close>\<close>

fun head_loop ::
  "framework \<Rightarrow> int \<Rightarrow> int \<Rightarrow> (string \<times> tensor) list \<Rightarrow> tensor list \<times> string list
     \<Rightarrow> (tensor list \<times> string list) build" where
  "head_loop fw target_level n_filters [] acc = ret acc"
| "head_loop fw target_level n_filters ((N, P) # rest) (semantic_features, semantic_names) =
     seq (lift (first_level N)) (\<lambda>level.
     let n_upsample = level - target_level;
         target = (if length semantic_features > 0 then Some (last semantic_features) else None)
     in
     seq (semantic_upsample fw P n_upsample n_filters target) (\<lambda>q.
     head_loop fw target_level n_filters rest
       (semantic_features @ [q], semantic_names @ [''Q'' @ str_int level])))"

text \<open>
  The two list arguments are reversed in place, so the function also returns what the
  caller's two list objects hold when the call ends, whether it returns or raises.
  \<^verbatim>\<open>semantic_prediction\<close> is called with its defaults for \<^verbatim>\<open>target_level\<close>,
  \<^verbatim>\<open>n_filters\<close> and \<^verbatim>\<open>n_dense\<close>.
\<close>

definition create_semantic_head ::
  "framework \<Rightarrow> string list \<Rightarrow> tensor list \<Rightarrow> tensor option \<Rightarrow> int \<Rightarrow> int \<Rightarrow> int
     \<Rightarrow> graph \<Rightarrow> ((error + tensor) \<times> graph) \<times> (string list \<times> tensor list)" where
  "create_semantic_head fw pyramid_names pyramid_features input_target target_level
       n_classes n_filters s =
     (let pyramid_names = rev pyramid_names;
          pyramid_features = rev pyramid_features
      in
      (seq (head_loop fw target_level n_filters (zip pyramid_names pyramid_features) ([], []))
         (\<lambda>(semantic_features, semantic_names).
            semantic_prediction fw semantic_names semantic_features 0 input_target
              256 256 n_classes) s,
       (pyramid_names, pyramid_features)))"

subsection \<open>The module namespace\<close>

text \<open>
  Two names the functions read are looked up in the module's globals when the line runs.
  The file neither defines nor imports them, so in the namespace the file itself sets up
  both are unbound; a caller could bind them from outside.
\<close>

record model_kwargs =
  include_top :: bool
  input_tensor :: tensor
  weights :: "string option"
  pooling :: "string option"

record globals =
  backbone_dict :: "(string \<times> tensor) list option"
  get_pyramid_layer_outputs ::
    "(string \<Rightarrow> tensor \<Rightarrow> model_kwargs \<Rightarrow> (string list \<times> tensor list) build) option"

definition file_globals :: globals where
  "file_globals = \<lparr>backbone_dict = None, get_pyramid_layer_outputs = None\<rparr>"

subsection \<open>\<^verbatim>\<open>__create_pyramid_features\<close>\<close>

text \<open>
  \<^verbatim>\<open>int(s)\<close> on a string (Python 3.6 and later): surrounding whitespace is dropped,
  one sign is allowed, and digits may be grouped by single underscores. Among the code
  points below 256 the whitespace that \<^verbatim>\<open>int\<close> drops is the six ASCII blanks, the
  next-line character U+0085 and the no-break space U+00A0.
\<close>

definition is_space :: "char \<Rightarrow> bool" where
  "is_space c \<longleftrightarrow>
     c \<in> set [CHR 0x20, CHR 0x09, CHR 0x0A, CHR 0x0B, CHR 0x0C, CHR 0x0D, CHR 0x85, CHR 0xA0]"

definition strip :: "string \<Rightarrow> string" where
  "strip s = rev (dropWhile is_space (rev (dropWhile is_space s)))"

fun well_grouped :: "string \<Rightarrow> bool" where
  "well_grouped [] = False"
| "well_grouped [c] = is_digit c"
| "well_grouped (c # d # cs) =
     (is_digit c \<and> (if d = CHR ''_'' then well_grouped cs else well_grouped (d # cs)))"

definition py_int :: "string \<Rightarrow> error + int" where
  "py_int s =
     (let t = strip s;
          (neg, body) = (case t of
                           [] \<Rightarrow> (False, [])
                         | c # r \<Rightarrow> if c = CHR ''-'' then (True, r)
                                    else if c = CHR ''+'' then (False, r)
                                    else (False, t))
      in if well_grouped body
         then Inr ((if neg then - 1 else 1) * int (digits_val (filter is_digit body)))
         else Inl ValueError)"

text \<open>The sort key \<^verbatim>\<open>lambda x: int(x[1:])\<close>.\<close>

definition sort_key_of :: "string \<Rightarrow> error + int" where
  "sort_key_of x = py_int (drop 1 x)"

definition key_ok :: "string \<Rightarrow> bool" where
  "key_ok x = (case sort_key_of x of Inr k \<Rightarrow> True | Inl e \<Rightarrow> False)"

definition key_or_zero :: "string \<Rightarrow> int" where
  "key_or_zero x = (case sort_key_of x of Inr k \<Rightarrow> k | Inl e \<Rightarrow> 0)"

text \<open>
  \<^verbatim>\<open>names.sort(key=...)\<close>: the keys of all elements are computed first, so a key that
  raises makes the sort raise; the sort itself is stable.
\<close>

definition sort_names :: "string list \<Rightarrow> error + string list" where
  "sort_names names =
     (if list_all key_ok names
      then Inr (sort_key key_or_zero names)
      else Inl ValueError)"

fun lookup_all :: "(string \<times> tensor) list \<Rightarrow> string list \<Rightarrow> error + tensor list" where
  "lookup_all d [] = Inr []"
| "lookup_all d (n # ns) =
     (case map_of d n of
        None \<Rightarrow> Inl KeyError
      | Some v \<Rightarrow> (case lookup_all d ns of Inl e \<Rightarrow> Inl e | Inr vs \<Rightarrow> Inr (v # vs)))"

text \<open>
  Lines 103 to 105: the names and features the function works on come from the dictionary
  \<^verbatim>\<open>backbone_dict\<close> (its items in iteration order), not from the parameters.
\<close>

definition derive_backbone ::
  "(string \<times> tensor) list \<Rightarrow> error + (string list \<times> tensor list)" where
  "derive_backbone d =
     (case sort_names (map fst d) of
        Inl e \<Rightarrow> Inl e
      | Inr backbone_names \<Rightarrow>
          (case lookup_all d backbone_names of
             Inl e \<Rightarrow> Inl e
           | Inr backbone_features \<Rightarrow> Inr (backbone_names, backbone_features)))"

definition py_nth :: "'a list \<Rightarrow> nat \<Rightarrow> error + 'a" where
  "py_nth xs i = (if i < length xs then Inr (xs ! i) else Inl IndexError)"

definition conv_stride2 :: "int \<Rightarrow> string \<Rightarrow> layer" where
  "conv_stride2 feature_size nm =
     Conv2D \<lparr>filters = feature_size, kernel_size = (3, 3), strides = (2, 2),
             padding = ''same'', data_format = None, conv_name = Some nm\<rparr>"

text \<open>
  One round of the loop over \<^verbatim>\<open>range(len(backbone_names))\<close>.
  \<^verbatim>\<open>create_pyramid_level\<close> is called without \<^verbatim>\<open>feature_size\<close>, so with its
  default 256.
\<close>

definition pyramid_step ::
  "framework \<Rightarrow> string list \<Rightarrow> tensor list \<Rightarrow> nat
     \<Rightarrow> string list \<times> tensor list \<times> tensor option list
     \<Rightarrow> (string list \<times> tensor list \<times> tensor option list) build" where
  "pyramid_step fw backbone_names backbone_features i acc =
     (case acc of (pyramid_names, pyramid_finals, pyramid_upsamples) \<Rightarrow>
      seq (lift (py_nth backbone_names i)) (\<lambda>N.
      seq (lift (first_level N)) (\<lambda>level.
      let p_name = ''P'' @ str_int level;
          pyramid_names = pyramid_names @ [p_name]
      in
      seq (lift (py_nth backbone_features i)) (\<lambda>backbone_input.
      seq (if i = 0
           then seq (lift (py_nth backbone_features (i + 1))) (\<lambda>u. ret (Some u, None))
           else if int i = int (length backbone_names) - 1
           then seq (lift (py_last pyramid_upsamples)) (\<lambda>a. ret (None, a))
           else seq (lift (py_nth backbone_features (i + 1))) (\<lambda>u.
                seq (lift (py_last pyramid_upsamples)) (\<lambda>a. ret (Some u, a))))
        (\<lambda>(upsamplelike_input, addition_input).
      seq (create_pyramid_level fw backbone_input upsamplelike_input addition_input level 256)
        (\<lambda>(pf, pu).
      ret (pyramid_names, pyramid_finals @ [pf], pyramid_upsamples @ [pu])))))))"

fun pyramid_loop ::
  "framework \<Rightarrow> string list \<Rightarrow> tensor list \<Rightarrow> nat list
     \<Rightarrow> string list \<times> tensor list \<times> tensor option list
     \<Rightarrow> (string list \<times> tensor list \<times> tensor option list) build" where
  "pyramid_loop fw backbone_names backbone_features [] acc = ret acc"
| "pyramid_loop fw backbone_names backbone_features (i # is) acc =
     seq (pyramid_step fw backbone_names backbone_features i acc)
       (pyramid_loop fw backbone_names backbone_features is)"

definition create_pyramid_features ::
  "framework \<Rightarrow> globals \<Rightarrow> string list \<Rightarrow> tensor list \<Rightarrow> int
     \<Rightarrow> (string list \<times> tensor list) build" where
  "create_pyramid_features fw g backbone_names backbone_features feature_size =
     (case backbone_dict g of
        None \<Rightarrow> raise (NameError ''backbone_dict'')
      | Some d \<Rightarrow>
      seq (lift (derive_backbone d)) (\<lambda>(backbone_names, backbone_features).
      let backbone_names = rev backbone_names;
          backbone_features = rev backbone_features
      in
      seq (pyramid_loop fw backbone_names backbone_features
             [0..<length backbone_names] ([], [], []))
        (\<lambda>(pyramid_names, pyramid_finals, pyramid_upsamples).
      seq (lift (py_nth backbone_names 0)) (\<lambda>N.
      seq (lift (py_nth backbone_features 0)) (\<lambda>F.
      seq (lift (first_level N)) (\<lambda>l.
      let P_minus_2_name = ''P'' @ str_int (l + 1) in
      seq (call_layer fw (conv_stride2 feature_size P_minus_2_name) [F]) (\<lambda>P_minus_2.
      let pyramid_names = P_minus_2_name # pyramid_names;
          pyramid_finals = P_minus_2 # pyramid_finals
      in
      seq (lift (first_level N)) (\<lambda>l.
      let P_minus_1_name = ''P'' @ str_int (l + 2) in
      seq (call_layer fw (Activation ''relu'' (Some (N @ ''_relu''))) [P_minus_2]) (\<lambda>P_minus_1.
      seq (call_layer fw (conv_stride2 feature_size P_minus_1_name) [P_minus_1]) (\<lambda>P_minus_1.
      ret (rev (P_minus_1_name # pyramid_names), rev (P_minus_1 # pyramid_finals))))))))))))"

subsection \<open>\<^verbatim>\<open>FPNet\<close>\<close>

fun levels_of :: "string list \<Rightarrow> error + int list" where
  "levels_of [] = Inr []"
| "levels_of (N # Ns) =
     (case first_level N of
        Inl e \<Rightarrow> Inl e
      | Inr l \<Rightarrow> (case levels_of Ns of Inl e \<Rightarrow> Inl e | Inr ls \<Rightarrow> Inr (l # ls)))"

definition py_min :: "int list \<Rightarrow> error + int" where
  "py_min xs = (case xs of [] \<Rightarrow> Inl ValueError | y # ys \<Rightarrow> Inr (fold min ys y))"

definition make_model :: "framework \<Rightarrow> tensor \<Rightarrow> tensor \<Rightarrow> string \<Rightarrow> keras_model build" where
  "make_model fw inputs outputs nm =
     (case model_check fw inputs outputs nm of
        Some e \<Rightarrow> raise (FrameworkError e)
      | None \<Rightarrow> ret (Model inputs outputs nm))"

definition FPNet ::
  "framework \<Rightarrow> globals \<Rightarrow> string \<Rightarrow> int option list \<Rightarrow> tensor option \<Rightarrow> string option
     \<Rightarrow> string option \<Rightarrow> string option \<Rightarrow> int \<Rightarrow> int \<Rightarrow> string \<Rightarrow> keras_model build" where
  "FPNet fw g backbone input_shape inputs norm_method weights_arg pooling_arg
       required_channels n_classes nm =
     seq (case inputs of
            None \<Rightarrow> call_layer fw (Input input_shape) []
          | Some t \<Rightarrow> ret t) (\<lambda>inputs.
     seq (call_layer fw (ImageNormalization2D norm_method) [inputs]) (\<lambda>norm.
     seq (call_layer fw (TensorProduct required_channels) [norm]) (\<lambda>fixed_inputs.
     let kwargs = \<lparr>include_top = False, input_tensor = fixed_inputs,
                   weights = weights_arg, pooling = pooling_arg\<rparr>
     in
     case get_pyramid_layer_outputs g of
       None \<Rightarrow> raise (NameError ''get_pyramid_layer_outputs'')
     | Some outputs_of \<Rightarrow>
     seq (outputs_of backbone inputs kwargs) (\<lambda>(backbone_names, backbone_features).
     seq (create_pyramid_features fw g backbone_names backbone_features 256)
       (\<lambda>(fpn_names, fpn_features).
     seq (lift (levels_of fpn_names)) (\<lambda>levels.
     seq (lift (py_min levels)) (\<lambda>target_level.
     let fpn_names = butlast fpn_names;
         fpn_features = butlast fpn_features
     in
     seq (\<lambda>s. fst (create_semantic_head fw fpn_names fpn_features (Some inputs)
                      target_level n_classes 128 s)) (\<lambda>x.
     make_model fw inputs x nm))))))))"

subsection \<open>Reference descriptions and sample frameworks\<close>

text \<open>
  What \<^verbatim>\<open>semantic_upsample\<close> is described to build, written without the loop: a round
  is a 3x3 convolution followed by a 2x upsampling; the last round upsamples to the target
  when there is one.
\<close>

definition up_round :: "int \<Rightarrow> tensor \<Rightarrow> tensor" where
  "up_round n_filters x = Out (UpSampling2D (2, 2)) [Out (conv_up n_filters) [x]]"

definition last_round :: "int \<Rightarrow> tensor option \<Rightarrow> tensor \<Rightarrow> tensor" where
  "last_round n_filters target x =
     (case target of
        Some t \<Rightarrow> Out (UpsampleLike None) [Out (conv_up n_filters) [x], t]
      | None \<Rightarrow> up_round n_filters x)"

definition conv_only :: "int \<Rightarrow> tensor option \<Rightarrow> tensor \<Rightarrow> tensor" where
  "conv_only n_filters target x =
     (case target of
        Some t \<Rightarrow> Out (UpsampleLike None) [Out (conv_up n_filters) [x], t]
      | None \<Rightarrow> Out (conv_up n_filters) [x])"

definition upsampled :: "tensor \<Rightarrow> int \<Rightarrow> int \<Rightarrow> tensor option \<Rightarrow> tensor" where
  "upsampled x n_upsample n_filters target =
     (if n_upsample = 0 then conv_only n_filters target x
      else if 0 < n_upsample
      then last_round n_filters target ((up_round n_filters ^^ (nat n_upsample - 1)) x)
      else x)"

text \<open>
  A backbone name as the docstrings write them (\<^verbatim>\<open>C3\<close>, \<^verbatim>\<open>P4\<close>): one character that
  is not a digit, then one or more digits.
\<close>

definition level_name :: "string \<Rightarrow> bool" where
  "level_name x =
     (case x of
        [] \<Rightarrow> False
      | c # ds \<Rightarrow> (if is_digit c then False else ds \<noteq> [] \<and> list_all is_digit ds))"






text \<open>The layers \<^verbatim>\<open>FPNet\<close> builds before it asks for the backbone outputs.\<close>

fun preamble_layer :: "tensor \<Rightarrow> bool" where
  "preamble_layer (Out (Input sh) xs) = True"
| "preamble_layer (Out (ImageNormalization2D m) xs) = True"
| "preamble_layer (Out (TensorProduct n) xs) = True"
| "preamble_layer _ = False"

text \<open>A framework that accepts every layer and model and knows no static dimension.\<close>

definition accept_all :: framework where
  "accept_all =
     \<lparr>layer_check = (\<lambda>l xs. None), model_check = (\<lambda>i out nm. None),
      shape_dim = (\<lambda>t i. Inr None), image_data_format = ''channels_last''\<rparr>"

text \<open>
  A framework whose normalization layer rejects a method other than
  \<^verbatim>\<open>std\<close>, \<^verbatim>\<open>max\<close>, \<^verbatim>\<open>whole_image\<close> and \<^verbatim>\<open>None\<close>.
\<close>

definition strict_norm :: framework where
  "strict_norm =
     \<lparr>layer_check = (\<lambda>l xs.
        case l of
          ImageNormalization2D (Some m) \<Rightarrow>
            if m \<in> set [''std'', ''max'', ''whole_image''] then None
            else Some ''invalid norm_method''
        | _ \<Rightarrow> None),
      model_check = (\<lambda>i out nm. None),
      shape_dim = (\<lambda>t i. Inr None), image_data_format = ''channels_last''\<rparr>"

text \<open>A framework that rejects every upsampling layer.\<close>

definition no_upsampling :: framework where
  "no_upsampling =
     \<lparr>layer_check = (\<lambda>l xs.
        case l of
          UpSampling2D sz \<Rightarrow> Some ''upsampling rejected''
        | UpsampleLike n \<Rightarrow> Some ''upsampling rejected''
        | _ \<Rightarrow> None),
      model_check = (\<lambda>i out nm. None),
      shape_dim = (\<lambda>t i. Inr None), image_data_format = ''channels_last''\<rparr>"

subsection \<open>Graphs grown by layer calls\<close>

text \<open>
  The layer classes the file instantiates: every class it imports except
  \<^verbatim>\<open>Concatenate\<close> and \<^verbatim>\<open>MaxPool2D\<close>.
\<close>

fun used_layer :: "layer \<Rightarrow> bool" where
  "used_layer (Concatenate ax) = False"
| "used_layer (MaxPool2D sz) = False"
| "used_layer (Input sh) = True"
| "used_layer (ImageNormalization2D m) = True"
| "used_layer (TensorProduct n) = True"
| "used_layer (Conv2D a) = True"
| "used_layer (UpsampleLike n) = True"
| "used_layer (UpSampling2D sz) = True"
| "used_layer (Add n) = True"
| "used_layer (Activation f n) = True"
| "used_layer (Reshape sh) = True"
| "used_layer (BatchNormalization ax) = True"
| "used_layer (Softmax ax) = True"

text \<open>
  \<open>wired A new\<close>: every tensor of \<open>new\<close> is the output of a layer of one of these classes
  whose inputs are in \<open>A\<close> or earlier in \<open>new\<close>. \<open>builds_from A m out\<close>: whatever the state,
  running \<open>m\<close> only appends such layer outputs to the graph, and the tensors \<open>out\<close> of a
  returned value are among \<open>A\<close> and the appended outputs.
\<close>

fun wired :: "tensor set \<Rightarrow> tensor list \<Rightarrow> bool" where
  "wired A [] = True"
| "wired A (t # ts) =
     ((case t of Ext k \<Rightarrow> False | Out l xs \<Rightarrow> used_layer l \<and> set xs \<subseteq> A)
      \<and> wired (insert t A) ts)"

text \<open>Whether every tensor of a graph is the output of a layer imported from Keras.\<close>

fun keras_only :: "tensor list \<Rightarrow> bool" where
  "keras_only [] = True"
| "keras_only (t # ts) =
     ((case t of Ext k \<Rightarrow> False | Out l xs \<Rightarrow> layer_origin l = Keras) \<and> keras_only ts)"

definition builds_from :: "tensor set \<Rightarrow> 'a build \<Rightarrow> ('a \<Rightarrow> tensor set) \<Rightarrow> bool" where
  "builds_from A m out \<longleftrightarrow>
     (\<forall>s. \<exists>new. snd (m s) = s @ new \<and> wired A new
                \<and> (case fst (m s) of Inl e \<Rightarrow> True | Inr y \<Rightarrow> out y \<subseteq> A \<union> set new))"

fun model_tensors :: "keras_model \<Rightarrow> tensor set" where
  "model_tensors (Model i out nm) = {i, out}"

text \<open>The tensors held in the accumulators of the pyramid loop.\<close>

definition acc_tensors :: "string list \<times> tensor list \<times> tensor option list \<Rightarrow> tensor set" where
  "acc_tensors acc = set (fst (snd acc)) \<union> \<Union>(set_option ` set (snd (snd acc)))"

definition dict_tensors :: "globals \<Rightarrow> tensor set" where
  "dict_tensors g = (case backbone_dict g of None \<Rightarrow> {} | Some d \<Rightarrow> snd ` set d)"

section \<open>Properties\<close>

subsection \<open>Sequencing and layer calls\<close>

lemma seq_ret: "seq (ret x) f s = f x s"
  by (simp add: seq_def ret_def)

lemma seq_raise: "seq (raise e) f s = (Inl e, s)"
  by (simp add: seq_def raise_def)

lemma seq_Inr_D:
  "seq m f s = (Inr y, s2) \<Longrightarrow> \<exists>x s1. m s = (Inr x, s1) \<and> f x s1 = (Inr y, s2)"
  by (auto simp: seq_def split: prod.splits sum.splits)

lemma seq_Inl_D:
  "seq m f s = (Inl e, s2) \<Longrightarrow>
     m s = (Inl e, s2) \<or> (\<exists>x s1. m s = (Inr x, s1) \<and> f x s1 = (Inl e, s2))"
  by (auto simp: seq_def split: prod.splits sum.splits)

lemma seq_Inr_I: "m s = (Inr x, s1) \<Longrightarrow> seq m f s = f x s1"
  by (simp add: seq_def)

lemma call_layer_Inr_D:
  "call_layer fw l xs s = (Inr y, s1) \<Longrightarrow> y = Out l xs \<and> s1 = s @ [Out l xs]"
  by (auto simp: call_layer_def split: option.splits)

lemma call_layer_Inl_D:
  "call_layer fw l xs s = (Inl e, s1) \<Longrightarrow> is_framework_error e \<and> s1 = s"
  by (auto simp: call_layer_def split: option.splits)

lemma call_layer_permissive:
  "permissive fw \<Longrightarrow> call_layer fw l xs s = (Inr (Out l xs), s @ [Out l xs])"
  by (simp add: call_layer_def permissive_def)

subsection \<open>\<^verbatim>\<open>create_pyramid_level\<close>: what a successful call builds\<close>

lemma create_pyramid_level_Inr_D:
  assumes "create_pyramid_level fw backbone_input upsamplelike_input addition_input level
             feature_size s = (Inr (pyramid_final, pyramid_upsample), s')"
  shows "s' = s @ [Out (conv_1x1 feature_size (''C'' @ str_int level @ ''_reduced''))
                     [backbone_input]]
            @ (case upsamplelike_input of
                 None \<Rightarrow> []
               | Some u \<Rightarrow>
                   [Out (UpsampleLike (Some (''P'' @ str_int level @ ''_upsampled'')))
                      [Out (conv_1x1 feature_size (''C'' @ str_int level @ ''_reduced''))
                         [backbone_input], u]])
            @ (case addition_input of
                 None \<Rightarrow> []
               | Some a \<Rightarrow>
                   [Out (Add (Some (''P'' @ str_int level @ ''_merged'')))
                      [Out (conv_1x1 feature_size (''C'' @ str_int level @ ''_reduced''))
                         [backbone_input], a]])
            @ [pyramid_final]"
    and "pyramid_final =
           Out (conv_3x3 feature_size (''P'' @ str_int level))
             [case addition_input of
                None \<Rightarrow> Out (conv_1x1 feature_size (''C'' @ str_int level @ ''_reduced''))
                          [backbone_input]
              | Some a \<Rightarrow>
                  Out (Add (Some (''P'' @ str_int level @ ''_merged'')))
                    [Out (conv_1x1 feature_size (''C'' @ str_int level @ ''_reduced''))
                       [backbone_input], a]]"
    and "pyramid_upsample =
           (case upsamplelike_input of
              None \<Rightarrow> None
            | Some u \<Rightarrow>
                Some (Out (UpsampleLike (Some (''P'' @ str_int level @ ''_upsampled'')))
                        [Out (conv_1x1 feature_size (''C'' @ str_int level @ ''_reduced''))
                           [backbone_input], u]))"
  using assms
  by (auto simp: create_pyramid_level_def Let_def seq_def ret_def call_layer_def
           split: option.splits sum.splits prod.splits)

lemma permissive_accept_all: "permissive accept_all"
  by (simp add: permissive_def accept_all_def)



lemma str_int_4: "str_int 4 = ''4''"
  by code_simp


subsection \<open>\<^verbatim>\<open>semantic_upsample\<close>: the loop and its result\<close>

lemma seq_assoc: "seq (seq m f) g = seq m (\<lambda>x. seq (f x) g)"
  by (rule ext) (simp add: seq_def split: prod.splits sum.splits)

lemma upsample_loop_append:
  "upsample_loop fw n nf t (is @ js) x s =
     seq (upsample_loop fw n nf t is x) (upsample_loop fw n nf t js) s"
proof (induction "is" arbitrary: x s)
  case Nil
  show ?case by (simp add: seq_ret)
next
  case (Cons i "is")
  show ?case
    by (simp add: seq_def Cons.IH split: prod.splits sum.splits option.splits)
qed

lemma upsample_round_Inr_D:
  assumes "seq (call_layer fw (conv_up nf) [x]) (\<lambda>c. call_layer fw (UpSampling2D (2, 2)) [c]) s
             = (Inr y, s')"
  shows "y = up_round nf x \<and> length s' = length s + 2"
  using assms
  by (auto simp: seq_def call_layer_def up_round_def split: option.splits)

lemma upsample_loop_plain:
  assumes "list_all (\<lambda>i. int i \<noteq> n - 1) is"
    and "upsample_loop fw n nf t is x s = (Inr y, s')"
  shows "y = (up_round nf ^^ length is) x \<and> length s' = length s + 2 * length is"
  using assms
proof (induction "is" arbitrary: x s)
  case Nil
  then show ?case by (simp add: ret_def)
next
  case (Cons i "is")
  from Cons.prems(1) have ne: "int i \<noteq> n - 1" and rest: "list_all (\<lambda>i. int i \<noteq> n - 1) is"
    by simp_all
  from Cons.prems(2) ne
  have "seq (seq (call_layer fw (conv_up nf) [x]) (\<lambda>c. call_layer fw (UpSampling2D (2, 2)) [c]))
          (upsample_loop fw n nf t is) s = (Inr y, s')"
    by (cases t) (simp_all add: seq_assoc)
  then obtain x1 s1 where
    r: "seq (call_layer fw (conv_up nf) [x]) (\<lambda>c. call_layer fw (UpSampling2D (2, 2)) [c]) s
          = (Inr x1, s1)"
    and l: "upsample_loop fw n nf t is x1 s1 = (Inr y, s')"
    by (blast dest: seq_Inr_D)
  from upsample_round_Inr_D[OF r] have x1: "x1 = up_round nf x" and s1: "length s1 = length s + 2"
    by simp_all
  from Cons.IH[OF rest l] x1 s1 show ?case
    by (simp add: funpow_swap1)
qed

lemma upsample_last_Inr_D:
  assumes "upsample_loop fw n nf t [i] x s = (Inr y, s')" and "int i = n - 1"
  shows "y = last_round nf t x \<and> length s' = length s + 2"
  using assms
  by (auto simp: seq_def ret_def call_layer_def last_round_def up_round_def
           split: option.splits)

lemma upto_nat_snoc: "0 < n \<Longrightarrow> [0..<nat n] = [0..<nat n - 1] @ [nat n - 1]"
  by (metis Suc_diff_1 upt_Suc_append zero_le zero_less_nat_eq)

lemma semantic_upsample_Inr_D:
  assumes "semantic_upsample fw x n nf t s = (Inr y, s')"
  shows "y = upsampled x n nf t"
    and "n < 0 \<Longrightarrow> s' = s"
    and "n = 0 \<Longrightarrow> s' = s @ [Out (conv_up nf) [x]]
                          @ (case t of None \<Rightarrow> [] | Some tg \<Rightarrow> [y])"
    and "0 < n \<Longrightarrow> length s' = length s + 2 * nat n"
proof -
  consider (neg) "n < 0" | (zero) "n = 0" | (pos) "0 < n" by linarith
  then have "y = upsampled x n nf t \<and> (n < 0 \<longrightarrow> s' = s)
      \<and> (n = 0 \<longrightarrow> s' = s @ [Out (conv_up nf) [x]] @ (case t of None \<Rightarrow> [] | Some tg \<Rightarrow> [y]))
      \<and> (0 < n \<longrightarrow> length s' = length s + 2 * nat n)"
  proof cases
    case neg
    with assms show ?thesis
      by (simp add: semantic_upsample_def upsampled_def seq_ret ret_def)
  next
    case zero
    with assms show ?thesis
      by (auto simp: semantic_upsample_def upsampled_def conv_only_def seq_def ret_def
            call_layer_def split: option.splits)
  next
    case pos
    let ?k = "nat n - 1"
    from pos assms have
      "seq (upsample_loop fw n nf t [0..<?k] x) (upsample_loop fw n nf t [?k]) s = (Inr y, s')"
      by (simp add: semantic_upsample_def upto_nat_snoc[OF pos] upsample_loop_append
            seq_def ret_def split: prod.splits sum.splits)
    then obtain x1 s1 where
      a: "upsample_loop fw n nf t [0..<?k] x s = (Inr x1, s1)"
      and b: "upsample_loop fw n nf t [?k] x1 s1 = (Inr y, s')"
      by (blast dest: seq_Inr_D)
    from pos have "list_all (\<lambda>i. int i \<noteq> n - 1) [0..<?k]"
      by (auto simp: list_all_iff)
    from upsample_loop_plain[OF this a]
    have x1: "x1 = (up_round nf ^^ ?k) x" and s1: "length s1 = length s + 2 * ?k"
      by simp_all
    from pos have "int ?k = n - 1" by simp
    from upsample_last_Inr_D[OF b this] x1 s1 pos show ?thesis
      by (auto simp: upsampled_def)
  qed
  then show "y = upsampled x n nf t"
    and "n < 0 \<Longrightarrow> s' = s"
    and "n = 0 \<Longrightarrow> s' = s @ [Out (conv_up nf) [x]]
                          @ (case t of None \<Rightarrow> [] | Some tg \<Rightarrow> [y])"
    and "0 < n \<Longrightarrow> length s' = length s + 2 * nat n"
    by simp_all
qed


lemma size_up_round: "size x < size (up_round nf x)"
  by (simp add: up_round_def)

lemma size_up_rounds: "size x \<le> size ((up_round nf ^^ k) x)"
proof (induction k)
  case 0
  show ?case by simp
next
  case (Suc k)
  have "size ((up_round nf ^^ k) x) < size (up_round nf ((up_round nf ^^ k) x))"
    by (rule size_up_round)
  with Suc show ?case by simp
qed

lemma size_last_round: "size x < size (last_round nf t x)"
  by (simp add: last_round_def up_round_def split: option.splits)

lemma size_upsampled: "0 \<le> n \<Longrightarrow> size x < size (upsampled x n nf t)"
proof -
  assume "0 \<le> n"
  have "size x \<le> size ((up_round nf ^^ (nat n - 1)) x)"
    by (rule size_up_rounds)
  also have "\<dots> < size (last_round nf t ((up_round nf ^^ (nat n - 1)) x))"
    by (rule size_last_round)
  finally have "size x < size (last_round nf t ((up_round nf ^^ (nat n - 1)) x))" .
  moreover have "size x < size (conv_only nf t x)"
    by (simp add: conv_only_def split: option.splits)
  ultimately show ?thesis using \<open>0 \<le> n\<close>
    by (simp add: upsampled_def)
qed

lemma upsample_loop_permissive:
  assumes "permissive fw"
  shows "\<exists>y s'. upsample_loop fw n nf t is x s = (Inr y, s')"
proof (induction "is" arbitrary: x s)
  case Nil
  show ?case by (simp add: ret_def)
next
  case (Cons i "is")
  show ?case
    using Cons.IH
    by (cases t) (simp_all add: seq_def call_layer_permissive[OF assms])
qed

lemma semantic_upsample_permissive:
  assumes "permissive fw"
  shows "\<exists>y s'. semantic_upsample fw x n nf t s = (Inr y, s')"
proof -
  obtain x1 s1 where "upsample_loop fw n nf t [0..<nat n] x s = (Inr x1, s1)"
    using upsample_loop_permissive[OF assms] by blast
  then show ?thesis
    by (simp add: semantic_upsample_def seq_def ret_def call_layer_permissive[OF assms]
          split: option.splits)
qed

text \<open>
  Claim C10, amended. A call of \<^verbatim>\<open>semantic_upsample\<close> that returns gives: for
  \<open>n_upsample = 0\<close>, exactly one 3x3 convolution with \<open>n_filters\<close> filters applied to
  \<open>x\<close>, followed by an \<^verbatim>\<open>UpsampleLike\<close> to the target when there is one; for positive
  \<open>n_upsample\<close>, \<open>n_upsample\<close> rounds of a 3x3 convolution with \<open>n_filters\<close> filters and
  an upsampling (two layers each), the upsampling being a 2x \<^verbatim>\<open>UpSampling2D\<close> except in
  the last round when a target is given, where it is \<^verbatim>\<open>UpsampleLike\<close> to the target.
  For \<open>n_upsample \<ge> 0\<close> the result is never the input. For negative \<open>n_upsample\<close> the
  input is returned unchanged and no layer is created. With a framework that accepts
  every layer the call returns.
\<close>

theorem semantic_upsample_result:
  "(permissive fw \<longrightarrow> (\<exists>y s'. semantic_upsample fw x n_upsample n_filters target s = (Inr y, s')))
   \<and> (\<forall>y s'. semantic_upsample fw x n_upsample n_filters target s = (Inr y, s') \<longrightarrow>
        (let conv = (\<lambda>z. Out (Conv2D \<lparr>filters = n_filters, kernel_size = (3, 3),
                                       strides = (1, 1), padding = ''same'',
                                       data_format = Some ''channels_last'',
                                       conv_name = None\<rparr>) [z]);
             round = (\<lambda>z. Out (UpSampling2D (2, 2)) [conv z]);
             to_target = (\<lambda>z. case target of
                                 None \<Rightarrow> Out (UpSampling2D (2, 2)) [conv z]
                               | Some t \<Rightarrow> Out (UpsampleLike None) [conv z, t])
         in (n_upsample = 0 \<longrightarrow>
               y = (case target of
                      None \<Rightarrow> conv x
                    | Some t \<Rightarrow> Out (UpsampleLike None) [conv x, t])
               \<and> s' = s @ [conv x] @ (case target of None \<Rightarrow> [] | Some t \<Rightarrow> [y]))
            \<and> (0 < n_upsample \<longrightarrow>
                 y = to_target ((round ^^ (nat n_upsample - 1)) x)
                 \<and> length s' = length s + 2 * nat n_upsample)
            \<and> (0 \<le> n_upsample \<longrightarrow> y \<noteq> x)
            \<and> (n_upsample < 0 \<longrightarrow> y = x \<and> s' = s)))"
proof (intro conjI allI impI)
  assume "permissive fw"
  then show "\<exists>y s'. semantic_upsample fw x n_upsample n_filters target s = (Inr y, s')"
    by (rule semantic_upsample_permissive)
next
  fix y s'
  assume h: "semantic_upsample fw x n_upsample n_filters target s = (Inr y, s')"
  note y = semantic_upsample_Inr_D(1)[OF h]
  have r: "up_round n_filters =
             (\<lambda>z. Out (UpSampling2D (2, 2))
                     [Out (Conv2D \<lparr>filters = n_filters, kernel_size = (3, 3),
                                   strides = (1, 1), padding = ''same'',
                                   data_format = Some ''channels_last'',
                                   conv_name = None\<rparr>) [z]])"
    by (rule ext) (simp add: up_round_def conv_up_def)
  have zero: "y = (case target of
                     None \<Rightarrow> Out (conv_up n_filters) [x]
                   | Some t \<Rightarrow> Out (UpsampleLike None) [Out (conv_up n_filters) [x], t])
              \<and> s' = s @ [Out (conv_up n_filters) [x]]
                       @ (case target of None \<Rightarrow> [] | Some t \<Rightarrow> [y])"
    if "n_upsample = 0"
    using that y semantic_upsample_Inr_D(3)[OF h]
    by (simp add: upsampled_def conv_only_def split: option.splits)
  have pos: "y = (case target of
                    None \<Rightarrow> up_round n_filters ((up_round n_filters ^^ (nat n_upsample - 1)) x)
                  | Some t \<Rightarrow>
                      Out (UpsampleLike None)
                        [Out (conv_up n_filters)
                           [(up_round n_filters ^^ (nat n_upsample - 1)) x], t])
             \<and> length s' = length s + 2 * nat n_upsample"
    if "0 < n_upsample"
    using that y semantic_upsample_Inr_D(4)[OF h]
    by (simp add: upsampled_def last_round_def split: option.splits)
  have nonneg: "y \<noteq> x" if "0 \<le> n_upsample"
    using size_upsampled[OF that, of x n_filters target] y by auto
  have neg: "y = x \<and> s' = s" if "n_upsample < 0"
    using that y semantic_upsample_Inr_D(2)[OF h] by (simp add: upsampled_def)
  show "let conv = (\<lambda>z. Out (Conv2D \<lparr>filters = n_filters, kernel_size = (3, 3),
                                       strides = (1, 1), padding = ''same'',
                                       data_format = Some ''channels_last'',
                                       conv_name = None\<rparr>) [z]);
             round = (\<lambda>z. Out (UpSampling2D (2, 2)) [conv z]);
             to_target = (\<lambda>z. case target of
                                 None \<Rightarrow> Out (UpSampling2D (2, 2)) [conv z]
                               | Some t \<Rightarrow> Out (UpsampleLike None) [conv z, t])
         in (n_upsample = 0 \<longrightarrow>
               y = (case target of
                      None \<Rightarrow> conv x
                    | Some t \<Rightarrow> Out (UpsampleLike None) [conv x, t])
               \<and> s' = s @ [conv x] @ (case target of None \<Rightarrow> [] | Some t \<Rightarrow> [y]))
            \<and> (0 < n_upsample \<longrightarrow>
                 y = to_target ((round ^^ (nat n_upsample - 1)) x)
                 \<and> length s' = length s + 2 * nat n_upsample)
            \<and> (0 \<le> n_upsample \<longrightarrow> y \<noteq> x)
            \<and> (n_upsample < 0 \<longrightarrow> y = x \<and> s' = s)"
    unfolding Let_def
  proof (intro conjI impI)
    assume z: "n_upsample = 0"
    from zero[OF z] show "y = (case target of
              None \<Rightarrow> Out (Conv2D \<lparr>filters = n_filters, kernel_size = (3, 3),
                                   strides = (1, 1), padding = ''same'',
                                   data_format = Some ''channels_last'',
                                   conv_name = None\<rparr>) [x]
            | Some t \<Rightarrow>
                Out (UpsampleLike None)
                  [Out (Conv2D \<lparr>filters = n_filters, kernel_size = (3, 3),
                                strides = (1, 1), padding = ''same'',
                                data_format = Some ''channels_last'',
                                conv_name = None\<rparr>) [x], t])"
      by (simp add: conv_up_def split: option.splits)
    from zero[OF z] show "s' = s @ [Out (Conv2D \<lparr>filters = n_filters, kernel_size = (3, 3),
                                   strides = (1, 1), padding = ''same'',
                                   data_format = Some ''channels_last'',
                                   conv_name = None\<rparr>) [x]]
                      @ (case target of None \<Rightarrow> [] | Some t \<Rightarrow> [y])"
      by (simp add: conv_up_def split: option.splits)
  next
    assume p: "0 < n_upsample"
    from pos[OF p] show "y = (case target of
              None \<Rightarrow>
                Out (UpSampling2D (2, 2))
                  [Out (Conv2D \<lparr>filters = n_filters, kernel_size = (3, 3),
                                strides = (1, 1), padding = ''same'',
                                data_format = Some ''channels_last'',
                                conv_name = None\<rparr>)
                     [((\<lambda>z. Out (UpSampling2D (2, 2))
                              [Out (Conv2D \<lparr>filters = n_filters, kernel_size = (3, 3),
                                            strides = (1, 1), padding = ''same'',
                                            data_format = Some ''channels_last'',
                                            conv_name = None\<rparr>) [z]])
                        ^^ (nat n_upsample - 1)) x]]
            | Some t \<Rightarrow>
                Out (UpsampleLike None)
                  [Out (Conv2D \<lparr>filters = n_filters, kernel_size = (3, 3),
                                strides = (1, 1), padding = ''same'',
                                data_format = Some ''channels_last'',
                                conv_name = None\<rparr>)
                     [((\<lambda>z. Out (UpSampling2D (2, 2))
                              [Out (Conv2D \<lparr>filters = n_filters, kernel_size = (3, 3),
                                            strides = (1, 1), padding = ''same'',
                                            data_format = Some ''channels_last'',
                                            conv_name = None\<rparr>) [z]])
                        ^^ (nat n_upsample - 1)) x], t])"
      unfolding r by (simp add: conv_up_def split: option.splits)
    from pos[OF p] show "length s' = length s + 2 * nat n_upsample" by simp
  next
    assume "0 \<le> n_upsample"
    then show "y \<noteq> x" by (rule nonneg)
  next
    assume n: "n_upsample < 0"
    from neg[OF n] show "y = x" by simp
    from neg[OF n] show "s' = s" by simp
  qed
qed

text \<open>
  With \<open>n_upsample = -1\<close> the loop body never runs and the \<open>n_upsample = 0\<close> branch is
  skipped: the input comes back unchanged.
\<close>

theorem semantic_upsample_negative_counterexample:
  "semantic_upsample accept_all (Ext 0) (- 1) 256 None [] = (Inr (Ext 0), [])"
  by (simp add: semantic_upsample_def seq_def ret_def)

lemma semantic_upsample_sample:
  "semantic_upsample accept_all (Ext 0) 2 256 (Some (Ext 1)) [] =
     (Inr (Out (UpsampleLike None)
             [Out (conv_up 256) [Out (UpSampling2D (2, 2)) [Out (conv_up 256) [Ext 0]]], Ext 1]),
      [Out (conv_up 256) [Ext 0],
       Out (UpSampling2D (2, 2)) [Out (conv_up 256) [Ext 0]],
       Out (conv_up 256) [Out (UpSampling2D (2, 2)) [Out (conv_up 256) [Ext 0]]],
       Out (UpsampleLike None)
         [Out (conv_up 256) [Out (UpSampling2D (2, 2)) [Out (conv_up 256) [Ext 0]]], Ext 1]])"
  by code_simp

theorem semantic_upsample_result_witness:
  "permissive accept_all
   \<and> (0::int) < 2
   \<and> fst (semantic_upsample accept_all (Ext 0) 2 256 (Some (Ext 1)) []) =
       Inr (Out (UpsampleLike None)
              [Out (Conv2D \<lparr>filters = 256, kernel_size = (3, 3), strides = (1, 1),
                            padding = ''same'', data_format = Some ''channels_last'',
                            conv_name = None\<rparr>)
                 [Out (UpSampling2D (2, 2))
                    [Out (Conv2D \<lparr>filters = 256, kernel_size = (3, 3), strides = (1, 1),
                                  padding = ''same'', data_format = Some ''channels_last'',
                                  conv_name = None\<rparr>) [Ext 0]]],
               Ext 1])
   \<and> length (snd (semantic_upsample accept_all (Ext 0) 2 256 (Some (Ext 1)) [])) = 4"
proof -
  note t = semantic_upsample_result[of accept_all "Ext 0" 2 256 "Some (Ext 1)" "[]"]
  from t permissive_accept_all obtain y s' where
    h: "semantic_upsample accept_all (Ext 0) 2 256 (Some (Ext 1)) [] = (Inr y, s')"
    by blast
  with t show ?thesis
    using permissive_accept_all by (simp add: Let_def)
qed

subsection \<open>\<^verbatim>\<open>create_pyramid_level\<close>: the upsampled output\<close>

text \<open>
  Claim C9. For a call of \<^verbatim>\<open>create_pyramid_level\<close> that returns, the second component
  is \<open>None\<close> exactly when \<open>upsamplelike_input\<close> is \<open>None\<close>; when a template is given it is
  the \<^verbatim>\<open>UpsampleLike\<close> of the 1x1 convolution of the backbone input and the template;
  and it is the same whatever \<open>addition_input\<close> is passed, so it never incorporates the
  addition.
\<close>

theorem create_pyramid_level_upsample_output:
  assumes "create_pyramid_level fw backbone_input upsamplelike_input addition_input level
             feature_size s = (Inr (pyramid_final, pyramid_upsample), s')"
  shows "(pyramid_upsample = None \<longleftrightarrow> upsamplelike_input = None)
     \<and> (\<forall>u. upsamplelike_input = Some u \<longrightarrow>
            pyramid_upsample =
              Some (Out (UpsampleLike (Some (''P'' @ str_int level @ ''_upsampled'')))
                      [Out (Conv2D \<lparr>filters = feature_size, kernel_size = (1, 1),
                                    strides = (1, 1), padding = ''same'', data_format = None,
                                    conv_name = Some (''C'' @ str_int level @ ''_reduced'')\<rparr>)
                         [backbone_input], u]))
     \<and> (\<forall>other_addition t final2 upsample2 t'.
            create_pyramid_level fw backbone_input upsamplelike_input other_addition level
              feature_size t = (Inr (final2, upsample2), t') \<longrightarrow>
            upsample2 = pyramid_upsample)"
proof -
  note u = create_pyramid_level_Inr_D(3)[OF assms]
  have a: "pyramid_upsample = None \<longleftrightarrow> upsamplelike_input = None"
    unfolding u by (cases upsamplelike_input) simp_all
  have b: "\<forall>u. upsamplelike_input = Some u \<longrightarrow>
            pyramid_upsample =
              Some (Out (UpsampleLike (Some (''P'' @ str_int level @ ''_upsampled'')))
                      [Out (Conv2D \<lparr>filters = feature_size, kernel_size = (1, 1),
                                    strides = (1, 1), padding = ''same'', data_format = None,
                                    conv_name = Some (''C'' @ str_int level @ ''_reduced'')\<rparr>)
                         [backbone_input], u])"
    unfolding u by (simp add: conv_1x1_def)
  have c: "\<forall>other_addition t final2 upsample2 t'.
            create_pyramid_level fw backbone_input upsamplelike_input other_addition level
              feature_size t = (Inr (final2, upsample2), t') \<longrightarrow>
            upsample2 = pyramid_upsample"
  proof (intro allI impI)
    fix other_addition t final2 upsample2 t'
    assume h2: "create_pyramid_level fw backbone_input upsamplelike_input other_addition level
                  feature_size t = (Inr (final2, upsample2), t')"
    show "upsample2 = pyramid_upsample"
      unfolding u create_pyramid_level_Inr_D(3)[OF h2] ..
  qed
  from a b c show ?thesis by (intro conjI)
qed

lemma create_pyramid_level_sample:
  "create_pyramid_level accept_all (Ext 0) (Some (Ext 1)) (Some (Ext 2)) 4 256 [] =
       (Inr (Out (conv_3x3 256 ''P4'')
               [Out (Add (Some ''P4_merged'')) [Out (conv_1x1 256 ''C4_reduced'') [Ext 0], Ext 2]],
             Some (Out (UpsampleLike (Some ''P4_upsampled''))
                     [Out (conv_1x1 256 ''C4_reduced'') [Ext 0], Ext 1])),
        [Out (conv_1x1 256 ''C4_reduced'') [Ext 0],
         Out (UpsampleLike (Some ''P4_upsampled''))
           [Out (conv_1x1 256 ''C4_reduced'') [Ext 0], Ext 1],
         Out (Add (Some ''P4_merged'')) [Out (conv_1x1 256 ''C4_reduced'') [Ext 0], Ext 2],
         Out (conv_3x3 256 ''P4'')
           [Out (Add (Some ''P4_merged'')) [Out (conv_1x1 256 ''C4_reduced'') [Ext 0], Ext 2]]])"
  by (simp add: create_pyramid_level_def Let_def seq_def ret_def call_layer_def accept_all_def
        str_int_4)

lemma create_pyramid_level_sample_no_addition:
  "create_pyramid_level accept_all (Ext 0) (Some (Ext 1)) None 4 256 [Ext 7] =
       (Inr (Out (conv_3x3 256 ''P4'') [Out (conv_1x1 256 ''C4_reduced'') [Ext 0]],
             Some (Out (UpsampleLike (Some ''P4_upsampled''))
                     [Out (conv_1x1 256 ''C4_reduced'') [Ext 0], Ext 1])),
        [Ext 7, Out (conv_1x1 256 ''C4_reduced'') [Ext 0],
         Out (UpsampleLike (Some ''P4_upsampled''))
           [Out (conv_1x1 256 ''C4_reduced'') [Ext 0], Ext 1],
         Out (conv_3x3 256 ''P4'') [Out (conv_1x1 256 ''C4_reduced'') [Ext 0]]])"
  by (simp add: create_pyramid_level_def Let_def seq_def ret_def call_layer_def accept_all_def
        str_int_4)

theorem create_pyramid_level_upsample_output_witness:
  "fst (create_pyramid_level accept_all (Ext 0) (Some (Ext 1)) (Some (Ext 2)) 4 256 []) =
     Inr (Out (Conv2D \<lparr>filters = 256, kernel_size = (3, 3), strides = (1, 1),
                       padding = ''same'', data_format = None, conv_name = Some ''P4''\<rparr>)
            [Out (Add (Some ''P4_merged''))
               [Out (Conv2D \<lparr>filters = 256, kernel_size = (1, 1), strides = (1, 1),
                             padding = ''same'', data_format = None,
                             conv_name = Some ''C4_reduced''\<rparr>) [Ext 0],
                Ext 2]],
          Some (Out (UpsampleLike (Some ''P4_upsampled''))
                  [Out (Conv2D \<lparr>filters = 256, kernel_size = (1, 1), strides = (1, 1),
                                padding = ''same'', data_format = None,
                                conv_name = Some ''C4_reduced''\<rparr>) [Ext 0],
                   Ext 1]))
   \<and> (Some (Out (UpsampleLike (Some ''P4_upsampled''))
               [Out (Conv2D \<lparr>filters = 256, kernel_size = (1, 1), strides = (1, 1),
                             padding = ''same'', data_format = None,
                             conv_name = Some ''C4_reduced''\<rparr>) [Ext 0],
                Ext 1]) = None
        \<longleftrightarrow> Some (Ext 1) = (None :: tensor option))
   \<and> snd (projr (fst (create_pyramid_level accept_all (Ext 0) (Some (Ext 1)) None 4 256 [Ext 7])))
       = Some (Out (UpsampleLike (Some ''P4_upsampled''))
                 [Out (Conv2D \<lparr>filters = 256, kernel_size = (1, 1), strides = (1, 1),
                               padding = ''same'', data_format = None,
                               conv_name = Some ''C4_reduced''\<rparr>) [Ext 0],
                  Ext 1])"
proof -
  note t = create_pyramid_level_upsample_output[OF create_pyramid_level_sample]
  from t have a: "Some (Out (UpsampleLike (Some ''P4_upsampled''))
               [Out (conv_1x1 256 ''C4_reduced'') [Ext 0], Ext 1]) = None
        \<longleftrightarrow> Some (Ext 1) = (None :: tensor option)"
    by (rule conjunct1)
  have "\<forall>other_addition t final2 upsample2 t'.
            create_pyramid_level accept_all (Ext 0) (Some (Ext 1)) other_addition 4
              256 t = (Inr (final2, upsample2), t') \<longrightarrow>
            upsample2 = Some (Out (UpsampleLike (Some ''P4_upsampled''))
                 [Out (conv_1x1 256 ''C4_reduced'') [Ext 0], Ext 1])"
    by (rule conjunct2[OF conjunct2[OF t]])
  from this[rule_format, OF create_pyramid_level_sample_no_addition]
  have c: "snd (projr (fst (create_pyramid_level accept_all (Ext 0) (Some (Ext 1)) None 4 256
             [Ext 7])))
       = Some (Out (UpsampleLike (Some ''P4_upsampled''))
                 [Out (conv_1x1 256 ''C4_reduced'') [Ext 0], Ext 1])"
    by (simp only: create_pyramid_level_sample_no_addition fst_conv snd_conv sum.sel)
  have d: "fst (create_pyramid_level accept_all (Ext 0) (Some (Ext 1)) (Some (Ext 2)) 4 256 []) =
     Inr (Out (Conv2D \<lparr>filters = 256, kernel_size = (3, 3), strides = (1, 1),
                       padding = ''same'', data_format = None, conv_name = Some ''P4''\<rparr>)
            [Out (Add (Some ''P4_merged''))
               [Out (Conv2D \<lparr>filters = 256, kernel_size = (1, 1), strides = (1, 1),
                             padding = ''same'', data_format = None,
                             conv_name = Some ''C4_reduced''\<rparr>) [Ext 0],
                Ext 2]],
          Some (Out (UpsampleLike (Some ''P4_upsampled''))
                  [Out (Conv2D \<lparr>filters = 256, kernel_size = (1, 1), strides = (1, 1),
                                padding = ''same'', data_format = None,
                                conv_name = Some ''C4_reduced''\<rparr>) [Ext 0],
                   Ext 1]))"
    unfolding create_pyramid_level_sample by (simp add: conv_1x1_def conv_3x3_def)
  from a c d show ?thesis by (simp add: conv_1x1_def)
qed

subsection \<open>The unbound names\<close>

lemma create_pyramid_features_unbound:
  "backbone_dict g = None \<Longrightarrow>
     create_pyramid_features fw g backbone_names backbone_features feature_size s =
       (Inl (NameError ''backbone_dict''), s)"
  by (simp add: create_pyramid_features_def raise_def)

lemma create_pyramid_features_ignores_parameters:
  "create_pyramid_features fw g backbone_names backbone_features feature_size =
     create_pyramid_features fw g other_names other_features feature_size"
  by (simp add: create_pyramid_features_def)

lemma FPNet_unbound:
  assumes "get_pyramid_layer_outputs g = None"
  shows "FPNet fw g backbone input_shape inputs norm_method weights_arg pooling_arg
           required_channels n_classes nm s =
         seq (case inputs of None \<Rightarrow> call_layer fw (Input input_shape) [] | Some t \<Rightarrow> ret t)
           (\<lambda>inputs.
         seq (call_layer fw (ImageNormalization2D norm_method) [inputs]) (\<lambda>norm.
         seq (call_layer fw (TensorProduct required_channels) [norm]) (\<lambda>fixed_inputs.
         raise (NameError ''get_pyramid_layer_outputs'')))) s"
  by (simp add: FPNet_def assms Let_def)

lemma FPNet_unbound_raises:
  assumes "get_pyramid_layer_outputs g = None"
  shows "\<exists>e new. FPNet fw g backbone input_shape inputs norm_method weights_arg pooling_arg
                    required_channels n_classes nm s = (Inl e, s @ new)
                  \<and> list_all preamble_layer new"
  unfolding FPNet_unbound[OF assms]
  by (cases inputs; cases "layer_check fw (Input input_shape) []";
      cases "layer_check fw (ImageNormalization2D norm_method)
               [case inputs of None \<Rightarrow> Out (Input input_shape) [] | Some t \<Rightarrow> t]";
      cases "layer_check fw (TensorProduct required_channels)
               [Out (ImageNormalization2D norm_method)
                  [case inputs of None \<Rightarrow> Out (Input input_shape) [] | Some t \<Rightarrow> t]]")
     (simp_all add: seq_def ret_def raise_def call_layer_def)

lemma FPNet_unbound_accepted:
  assumes "get_pyramid_layer_outputs g = None"
    and "case inputs of None \<Rightarrow> layer_check fw (Input input_shape) [] = None | Some t \<Rightarrow> True"
    and "layer_check fw (ImageNormalization2D norm_method)
           [case inputs of None \<Rightarrow> Out (Input input_shape) [] | Some t \<Rightarrow> t] = None"
    and "layer_check fw (TensorProduct required_channels)
           [Out (ImageNormalization2D norm_method)
              [case inputs of None \<Rightarrow> Out (Input input_shape) [] | Some t \<Rightarrow> t]] = None"
  shows "fst (FPNet fw g backbone input_shape inputs norm_method weights_arg pooling_arg
                required_channels n_classes nm s) = Inl (NameError ''get_pyramid_layer_outputs'')"
  unfolding FPNet_unbound[OF assms(1)] using assms(2-4)
  by (cases inputs) (simp_all add: seq_def ret_def raise_def call_layer_def)

lemma file_globals_unbound:
  "backbone_dict file_globals = None" "get_pyramid_layer_outputs file_globals = None"
  by (simp_all add: file_globals_def)

text \<open>
  Claim C1 says that \<^verbatim>\<open>FPNet\<close> returns a model for every choice of its arguments. In
  the namespace the file sets up, the call at line 364 reads the unbound name
  \<^verbatim>\<open>get_pyramid_layer_outputs\<close>: whatever the arguments and the framework,
  \<^verbatim>\<open>FPNet\<close> ends with an exception and no model is returned.
\<close>

theorem FPNet_never_returns_a_model:
  "\<exists>e s'. FPNet fw file_globals backbone input_shape inputs norm_method weights_arg pooling_arg
             required_channels n_classes nm s = (Inl e, s')"
  using FPNet_unbound_raises[OF file_globals_unbound(2)] by blast

text \<open>
  Claim C7 says that \<^verbatim>\<open>FPNet\<close> goes from the backbone outputs to the pyramid levels,
  the semantic head and the softmax prediction. On a sample call with a framework that
  accepts everything, only the input, normalization and channel-fixing layers are created
  before the \<^verbatim>\<open>NameError\<close>; and when a caller binds
  \<^verbatim>\<open>get_pyramid_layer_outputs\<close>, its outputs are not what the pyramid is built from:
  \<^verbatim>\<open>__create_pyramid_features\<close> reads the unbound \<^verbatim>\<open>backbone_dict\<close> instead.
\<close>

theorem FPNet_stops_before_the_backbone:
  "FPNet accept_all file_globals ''resnet50'' [Some 32, Some 32, Some 1] None
     (Some ''whole_image'') None None 3 3 ''fpnet'' [] =
     (Inl (NameError ''get_pyramid_layer_outputs''),
      [Out (Input [Some 32, Some 32, Some 1]) [],
       Out (ImageNormalization2D (Some ''whole_image''))
         [Out (Input [Some 32, Some 32, Some 1]) []],
       Out (TensorProduct 3)
         [Out (ImageNormalization2D (Some ''whole_image''))
            [Out (Input [Some 32, Some 32, Some 1]) []]]])
   \<and> FPNet accept_all
       \<lparr>backbone_dict = None,
        get_pyramid_layer_outputs =
          Some (\<lambda>backbone inputs kwargs. ret ([''C3'', ''C4''], [Ext 3, Ext 4]))\<rparr>
       ''resnet50'' [Some 32, Some 32, Some 1] None
       (Some ''whole_image'') None None 3 3 ''fpnet'' [] =
     (Inl (NameError ''backbone_dict''),
      [Out (Input [Some 32, Some 32, Some 1]) [],
       Out (ImageNormalization2D (Some ''whole_image''))
         [Out (Input [Some 32, Some 32, Some 1]) []],
       Out (TensorProduct 3)
         [Out (ImageNormalization2D (Some ''whole_image''))
            [Out (Input [Some 32, Some 32, Some 1]) []]]])"
  by (simp add: FPNet_def file_globals_def accept_all_def seq_def ret_def raise_def
        call_layer_def create_pyramid_features_def Let_def)

text \<open>
  A call of \<^verbatim>\<open>FPNet\<close> whose normalization layer is rejected by the framework raises the
  framework's error at line 354, before the unbound name is read: not every call raises
  a \<^verbatim>\<open>NameError\<close>.
\<close>

theorem FPNet_framework_error_counterexample:
  "FPNet strict_norm file_globals ''resnet50'' [Some 32, Some 32, Some 1] None
     (Some ''bogus'') None None 3 3 ''fpnet'' [] =
     (Inl (FrameworkError ''invalid norm_method''),
      [Out (Input [Some 32, Some 32, Some 1]) []])"
  by (simp add: FPNet_def file_globals_def strict_norm_def seq_def ret_def raise_def
        call_layer_def Let_def)

lemma FPNet_unbound_result:
  assumes "get_pyramid_layer_outputs g = None"
  shows "FPNet fw g backbone input_shape inputs norm_method weights_arg pooling_arg
           required_channels n_classes nm s =
         (let made = (case inputs of None \<Rightarrow> [Out (Input input_shape) []] | Some t \<Rightarrow> []);
              i = (case inputs of None \<Rightarrow> Out (Input input_shape) [] | Some t \<Rightarrow> t);
              norm = Out (ImageNormalization2D norm_method) [i];
              fixed_inputs = Out (TensorProduct required_channels) [norm]
          in case (case inputs of
                     None \<Rightarrow> layer_check fw (Input input_shape) []
                   | Some t \<Rightarrow> None) of
               Some m \<Rightarrow> (Inl (FrameworkError m), s)
             | None \<Rightarrow>
            (case layer_check fw (ImageNormalization2D norm_method) [i] of
               Some m \<Rightarrow> (Inl (FrameworkError m), s @ made)
             | None \<Rightarrow>
            (case layer_check fw (TensorProduct required_channels) [norm] of
               Some m \<Rightarrow> (Inl (FrameworkError m), s @ made @ [norm])
             | None \<Rightarrow>
                 (Inl (NameError ''get_pyramid_layer_outputs''),
                  s @ made @ [norm, fixed_inputs]))))"
  unfolding FPNet_unbound[OF assms]
  by (cases inputs)
     (simp_all add: seq_def ret_def raise_def call_layer_def Let_def split: option.splits)

text \<open>
  Claim C2, amended. In the file's namespace every call of
  \<^verbatim>\<open>__create_pyramid_features\<close> raises \<^verbatim>\<open>NameError\<close> for \<^verbatim>\<open>backbone_dict\<close> and
  creates no layer; in any namespace its result does not depend on the
  \<^verbatim>\<open>backbone_names\<close> and \<^verbatim>\<open>backbone_features\<close> it is passed. Every call of
  \<^verbatim>\<open>FPNet\<close> ends with an exception after creating at most the input, normalization
  and channel-fixing layers, so before any pyramid level. The exception is the error the
  framework raises for the first of these three layers that it rejects, and the
  \<^verbatim>\<open>NameError\<close> for \<^verbatim>\<open>get_pyramid_layer_outputs\<close> when it accepts all three.
\<close>

theorem undefined_names_raise:
  "create_pyramid_features fw file_globals backbone_names backbone_features feature_size s =
     (Inl (NameError ''backbone_dict''), s)
   \<and> create_pyramid_features fw g backbone_names backbone_features feature_size s =
       create_pyramid_features fw g other_names other_features feature_size s
   \<and> (\<exists>e new. FPNet fw file_globals backbone input_shape inputs norm_method weights_arg
                 pooling_arg required_channels n_classes nm s = (Inl e, s @ new)
               \<and> list_all preamble_layer new)
   \<and> FPNet fw file_globals backbone input_shape inputs norm_method weights_arg
       pooling_arg required_channels n_classes nm s =
       (let made = (case inputs of None \<Rightarrow> [Out (Input input_shape) []] | Some t \<Rightarrow> []);
            i = (case inputs of None \<Rightarrow> Out (Input input_shape) [] | Some t \<Rightarrow> t);
            norm = Out (ImageNormalization2D norm_method) [i];
            fixed_inputs = Out (TensorProduct required_channels) [norm]
        in case (case inputs of
                   None \<Rightarrow> layer_check fw (Input input_shape) []
                 | Some t \<Rightarrow> None) of
             Some m \<Rightarrow> (Inl (FrameworkError m), s)
           | None \<Rightarrow>
          (case layer_check fw (ImageNormalization2D norm_method) [i] of
             Some m \<Rightarrow> (Inl (FrameworkError m), s @ made)
           | None \<Rightarrow>
          (case layer_check fw (TensorProduct required_channels) [norm] of
             Some m \<Rightarrow> (Inl (FrameworkError m), s @ made @ [norm])
           | None \<Rightarrow>
               (Inl (NameError ''get_pyramid_layer_outputs''),
                s @ made @ [norm, fixed_inputs]))))
   \<and> ((case inputs of None \<Rightarrow> layer_check fw (Input input_shape) [] = None | Some t \<Rightarrow> True)
        \<longrightarrow> layer_check fw (ImageNormalization2D norm_method)
              [case inputs of None \<Rightarrow> Out (Input input_shape) [] | Some t \<Rightarrow> t] = None
        \<longrightarrow> layer_check fw (TensorProduct required_channels)
              [Out (ImageNormalization2D norm_method)
                 [case inputs of None \<Rightarrow> Out (Input input_shape) [] | Some t \<Rightarrow> t]] = None
        \<longrightarrow> fst (FPNet fw file_globals backbone input_shape inputs norm_method weights_arg
                   pooling_arg required_channels n_classes nm s)
              = Inl (NameError ''get_pyramid_layer_outputs''))"
proof (intro conjI impI)
  show "create_pyramid_features fw file_globals backbone_names backbone_features feature_size s =
          (Inl (NameError ''backbone_dict''), s)"
    by (rule create_pyramid_features_unbound[OF file_globals_unbound(1)])
  show "create_pyramid_features fw g backbone_names backbone_features feature_size s =
          create_pyramid_features fw g other_names other_features feature_size s"
    by (simp add: create_pyramid_features_ignores_parameters[of fw g backbone_names
          backbone_features feature_size other_names other_features])
  show "\<exists>e new. FPNet fw file_globals backbone input_shape inputs norm_method weights_arg
                 pooling_arg required_channels n_classes nm s = (Inl e, s @ new)
               \<and> list_all preamble_layer new"
    by (rule FPNet_unbound_raises[OF file_globals_unbound(2)])
  show "FPNet fw file_globals backbone input_shape inputs norm_method weights_arg
       pooling_arg required_channels n_classes nm s =
       (let made = (case inputs of None \<Rightarrow> [Out (Input input_shape) []] | Some t \<Rightarrow> []);
            i = (case inputs of None \<Rightarrow> Out (Input input_shape) [] | Some t \<Rightarrow> t);
            norm = Out (ImageNormalization2D norm_method) [i];
            fixed_inputs = Out (TensorProduct required_channels) [norm]
        in case (case inputs of
                   None \<Rightarrow> layer_check fw (Input input_shape) []
                 | Some t \<Rightarrow> None) of
             Some m \<Rightarrow> (Inl (FrameworkError m), s)
           | None \<Rightarrow>
          (case layer_check fw (ImageNormalization2D norm_method) [i] of
             Some m \<Rightarrow> (Inl (FrameworkError m), s @ made)
           | None \<Rightarrow>
          (case layer_check fw (TensorProduct required_channels) [norm] of
             Some m \<Rightarrow> (Inl (FrameworkError m), s @ made @ [norm])
           | None \<Rightarrow>
               (Inl (NameError ''get_pyramid_layer_outputs''),
                s @ made @ [norm, fixed_inputs]))))"
    by (rule FPNet_unbound_result[OF file_globals_unbound(2)])
next
  assume "case inputs of None \<Rightarrow> layer_check fw (Input input_shape) [] = None | Some t \<Rightarrow> True"
    and "layer_check fw (ImageNormalization2D norm_method)
           [case inputs of None \<Rightarrow> Out (Input input_shape) [] | Some t \<Rightarrow> t] = None"
    and "layer_check fw (TensorProduct required_channels)
           [Out (ImageNormalization2D norm_method)
              [case inputs of None \<Rightarrow> Out (Input input_shape) [] | Some t \<Rightarrow> t]] = None"
  then show "fst (FPNet fw file_globals backbone input_shape inputs norm_method weights_arg
                   pooling_arg required_channels n_classes nm s)
              = Inl (NameError ''get_pyramid_layer_outputs'')"
    by (rule FPNet_unbound_accepted[OF file_globals_unbound(2)])
qed

theorem undefined_names_raise_witness:
  "layer_check accept_all (Input [Some 32, Some 32, Some 1]) [] = None
   \<and> layer_check accept_all (ImageNormalization2D (Some ''whole_image''))
       [Out (Input [Some 32, Some 32, Some 1]) []] = None
   \<and> layer_check accept_all (TensorProduct 3)
       [Out (ImageNormalization2D (Some ''whole_image''))
          [Out (Input [Some 32, Some 32, Some 1]) []]] = None
   \<and> fst (FPNet accept_all file_globals ''resnet50'' [Some 32, Some 32, Some 1] None
            (Some ''whole_image'') None None 3 3 ''fpnet'' [])
       = Inl (NameError ''get_pyramid_layer_outputs'')
   \<and> create_pyramid_features accept_all file_globals [''C3'', ''C4''] [Ext 3, Ext 4] 256 [] =
       (Inl (NameError ''backbone_dict''), [])"
  using undefined_names_raise[of accept_all "[''C3'', ''C4'']" "[Ext 3, Ext 4]" 256 "[]"
          file_globals "[]" "[]" "''resnet50''" "[Some 32, Some 32, Some 1]" None
          "Some ''whole_image''" None None 3 3 "''fpnet''"]
  by (simp add: accept_all_def Let_def)

subsection \<open>\<^verbatim>\<open>__create_semantic_head\<close> and its list arguments\<close>

text \<open>
  Claim C6 says that the two lists passed to \<^verbatim>\<open>__create_semantic_head\<close> are the same
  after the call as before. The function reverses both in place (lines 284 and 285) and
  never reverses them back: when the call ends, by return or by exception, the caller's
  lists hold the reversed contents.
\<close>

theorem create_semantic_head_reverses_arguments:
  "snd (create_semantic_head fw pyramid_names pyramid_features input_target target_level
          n_classes n_filters s) = (rev pyramid_names, rev pyramid_features)
   \<and> snd (create_semantic_head accept_all [''P3'', ''P4''] [Ext 3, Ext 4] (Some (Ext 0))
            3 3 128 []) = ([''P4'', ''P3''], [Ext 4, Ext 3])"
  by (simp add: create_semantic_head_def Let_def)

subsection \<open>Where the exceptions come from\<close>

lemma create_pyramid_level_Inl_D:
  assumes "create_pyramid_level fw backbone_input upsamplelike_input addition_input level
             feature_size s = (Inl e, s')"
  shows "is_framework_error e"
  using assms
  by (auto simp: create_pyramid_level_def Let_def seq_def ret_def call_layer_def
           split: option.splits sum.splits prod.splits)

lemma upsample_loop_Inl_D:
  assumes "upsample_loop fw n nf t is x s = (Inl e, s')"
  shows "is_framework_error e"
  using assms
proof (induction "is" arbitrary: x s)
  case Nil
  then show ?case by (simp add: ret_def)
next
  case (Cons i "is")
  from Cons.prems Cons.IH show ?case
    by (cases t)
       (auto simp: seq_def call_layer_def split: option.splits if_splits)
qed

lemma semantic_upsample_Inl_D:
  assumes "semantic_upsample fw x n nf t s = (Inl e, s')"
  shows "is_framework_error e"
  using assms
  by (auto simp: semantic_upsample_def seq_def ret_def call_layer_def
           split: prod.splits sum.splits option.splits if_splits
           dest: upsample_loop_Inl_D)

lemma add_all_Inl_D:
  assumes "add_all fw acc fs s = (Inl e, s')"
  shows "is_framework_error e"
  using assms
proof (induction fs arbitrary: acc s)
  case Nil
  then show ?case by (simp add: ret_def)
next
  case (Cons f fs)
  from Cons.prems show ?case
    by (auto simp: seq_def call_layer_def split: option.splits dest: Cons.IH)
qed

lemma lift_Inl_D: "lift r s = (Inl e, s') \<Longrightarrow> r = Inl e"
  by (cases r) (simp_all add: lift_def raise_def ret_def)


lemma lift_fw_Inl_D: "lift_fw r s = (Inl e, s') \<Longrightarrow> is_framework_error e"
  by (cases r) (auto simp: lift_fw_def raise_def ret_def)

lemma seq_Inl_E:
  assumes "seq m f s = (Inl e, s2)"
  obtains "m s = (Inl e, s2)" | x s1 where "m s = (Inr x, s1)" and "f x s1 = (Inl e, s2)"
  using seq_Inl_D[OF assms] by blast

lemma py_last_Inl_D: "lift (py_last xs) s = (Inl e, s') \<Longrightarrow> e = IndexError \<and> xs = []"
  by (cases xs) (simp_all add: py_last_def lift_def raise_def ret_def)

lemma py_last_Inr_D:
  "lift (py_last xs) s = (Inr x, s') \<Longrightarrow> x = last xs \<and> xs \<noteq> [] \<and> s' = s"
  by (cases xs) (simp_all add: py_last_def lift_def raise_def ret_def)

lemma first_level_Inl_D:
  "lift (first_level N) s = (Inl e, s') \<Longrightarrow> e = IndexError \<and> findall_digits N = []"
  by (cases "findall_digits N") (simp_all add: first_level_def lift_def raise_def ret_def)

lemma prediction_tail_Inl_D:
  assumes "seq (call_layer fw (TensorProduct n_dense) [x]) (\<lambda>x.
           seq (call_layer fw (BatchNormalization (- 1)) [x]) (\<lambda>x.
           seq (call_layer fw (Activation ''relu'' None) [x]) (\<lambda>x.
           seq (call_layer fw (TensorProduct n_classes) [x]) (\<lambda>x.
           call_layer fw (Softmax channel_axis) [x])))) s = (Inl e, s')"
  shows "is_framework_error e"
  using assms
  by (auto simp: seq_def call_layer_def split: option.splits)

lemma reshape_Inl_D:
  assumes "(case input_target of
             None \<Rightarrow> raise AttributeError
           | Some it \<Rightarrow>
               seq (lift_fw (shape_dim fw it 1)) (\<lambda>h.
               seq (lift_fw (shape_dim fw it 2)) (\<lambda>w.
               seq (lift_fw (shape_dim fw x (- 1))) (\<lambda>c.
               call_layer fw (Reshape [h, w, c]) [x])))) s = (Inl e, s')"
  shows "is_framework_error e \<or> (e = AttributeError \<and> input_target = None)"
  using assms
  by (cases input_target)
     (auto simp: raise_def dest!: seq_Inl_D dest: lift_fw_Inl_D call_layer_Inl_D)

lemma semantic_prediction_Inl_D:
  assumes "semantic_prediction fw semantic_names semantic_features target_level input_target
             n_filters n_dense n_classes s = (Inl e, s')"
  shows "is_framework_error e
         \<or> (e = IndexError \<and> (semantic_features = [] \<or> semantic_names = []
                               \<or> findall_digits (last semantic_names) = []))
         \<or> (e = AttributeError \<and> input_target = None)"
proof (cases semantic_features)
  case Nil
  with assms show ?thesis
    by (simp add: semantic_prediction_def raise_def)
next
  case (Cons f0 rest)
  from assms Cons have
    "seq (add_all fw f0 rest) (\<lambda>semantic_sum.
      seq (lift (py_last semantic_names)) (\<lambda>last_name.
      seq (lift (first_level last_name)) (\<lambda>min_level.
      seq (semantic_upsample fw semantic_sum (min_level - target_level) 256 input_target)
        (\<lambda>x.
      seq (case input_target of
             None \<Rightarrow> raise AttributeError
           | Some it \<Rightarrow>
               seq (lift_fw (shape_dim fw it 1)) (\<lambda>h.
               seq (lift_fw (shape_dim fw it 2)) (\<lambda>w.
               seq (lift_fw (shape_dim fw x (- 1))) (\<lambda>c.
               call_layer fw (Reshape [h, w, c]) [x])))) (\<lambda>x.
      seq (call_layer fw (TensorProduct n_dense) [x]) (\<lambda>x.
      seq (call_layer fw (BatchNormalization (- 1)) [x]) (\<lambda>x.
      seq (call_layer fw (Activation ''relu'' None) [x]) (\<lambda>x.
      seq (call_layer fw (TensorProduct n_classes) [x]) (\<lambda>x.
      call_layer fw (Softmax (if image_data_format fw = ''channels_first'' then 1 else - 1))
        [x]))))))))) s = (Inl e, s')"
    by (simp add: semantic_prediction_def Let_def)
  then show ?thesis
    apply (elim seq_Inl_E)
             apply (blast dest: add_all_Inl_D)
            apply (blast dest: py_last_Inl_D)
           apply (auto dest!: py_last_Inr_D first_level_Inl_D)[1]
          apply (blast dest: semantic_upsample_Inl_D)
         apply (blast dest: reshape_Inl_D)
        apply (blast dest: call_layer_Inl_D)+
    done
qed

lemma head_loop_Inl_D:
  assumes "head_loop fw target_level n_filters zs acc s = (Inl e, s')"
  shows "is_framework_error e \<or> e = IndexError"
  using assms
proof (induction zs arbitrary: acc s)
  case Nil
  then show ?case by (simp add: ret_def)
next
  case (Cons z zs)
  obtain N P where z: "z = (N, P)" by (cases z)
  obtain sf sn where acc: "acc = (sf, sn)" by (cases acc)
  from Cons.prems show ?case
    unfolding z acc head_loop.simps Let_def
    apply (elim seq_Inl_E)
      apply (blast dest: first_level_Inl_D)
     apply (blast dest: semantic_upsample_Inl_D)
    apply (erule Cons.IH)
    done
qed

lemma create_semantic_head_Inl_D:
  assumes "fst (create_semantic_head fw pyramid_names pyramid_features input_target target_level
             n_classes n_filters s) = (Inl e, s')"
  shows "is_framework_error e \<or> e = IndexError \<or> (e = AttributeError \<and> input_target = None)"
proof -
  from assms have
    "seq (head_loop fw target_level n_filters (zip (rev pyramid_names) (rev pyramid_features))
            ([], []))
       (\<lambda>(semantic_features, semantic_names).
          semantic_prediction fw semantic_names semantic_features 0 input_target 256 256
            n_classes) s = (Inl e, s')"
    by (simp add: create_semantic_head_def Let_def)
  then show ?thesis
  proof (elim seq_Inl_E)
    assume "head_loop fw target_level n_filters (zip (rev pyramid_names) (rev pyramid_features))
              ([], []) s = (Inl e, s')"
    then show ?thesis by (blast dest: head_loop_Inl_D)
  next
    fix x s1
    assume "(case x of
              (semantic_features, semantic_names) \<Rightarrow>
                semantic_prediction fw semantic_names semantic_features 0 input_target 256 256
                  n_classes) s1 = (Inl e, s')"
    then show ?thesis
      by (cases x) (auto dest: semantic_prediction_Inl_D)
  qed
qed

text \<open>
  Claim C5, amended. \<^verbatim>\<open>create_pyramid_level\<close> and \<^verbatim>\<open>semantic_upsample\<close> raise
  nothing but what the framework raises. \<^verbatim>\<open>semantic_prediction\<close> and
  \<^verbatim>\<open>__create_semantic_head\<close> raise either what the framework raises or a built-in
  Python exception of the file's own list and attribute accesses: \<^verbatim>\<open>IndexError\<close> (for
  \<^verbatim>\<open>semantic_prediction\<close>: an empty feature list, an empty name list, or a last name
  without a digit) and \<^verbatim>\<open>AttributeError\<close> (only when \<^verbatim>\<open>input_target\<close> is
  \<^verbatim>\<open>None\<close>).
\<close>

theorem errors_raised_by_the_graph_functions:
  "(\<forall>e s'. create_pyramid_level fw backbone_input upsamplelike_input addition_input level
               feature_size s = (Inl e, s') \<longrightarrow> is_framework_error e)
   \<and> (\<forall>e s'. semantic_upsample fw x n_upsample n_filters target s = (Inl e, s') \<longrightarrow>
                is_framework_error e)
   \<and> (\<forall>e s'. semantic_prediction fw semantic_names semantic_features target_level input_target
                 n_filters2 n_dense n_classes s = (Inl e, s') \<longrightarrow>
                is_framework_error e
                \<or> (e = IndexError \<and> (semantic_features = [] \<or> semantic_names = []
                                      \<or> findall_digits (last semantic_names) = []))
                \<or> (e = AttributeError \<and> input_target = None))
   \<and> (\<forall>e s'. fst (create_semantic_head fw pyramid_names pyramid_features head_target
                      head_level head_classes head_filters s) = (Inl e, s') \<longrightarrow>
                is_framework_error e \<or> e = IndexError
                \<or> (e = AttributeError \<and> head_target = None))"
  by (blast dest: create_pyramid_level_Inl_D semantic_upsample_Inl_D semantic_prediction_Inl_D
        create_semantic_head_Inl_D)

text \<open>
  With a framework that accepts everything, \<^verbatim>\<open>semantic_prediction\<close> on empty lists
  raises \<^verbatim>\<open>IndexError\<close> at \<^verbatim>\<open>semantic_features[0]\<close>: an error condition of the
  file's own.
\<close>

theorem own_index_error_counterexample:
  "semantic_prediction accept_all [] [] 0 (Some (Ext 0)) 256 256 3 [] = (Inl IndexError, [])
   \<and> \<not> is_framework_error IndexError"
  by (simp add: semantic_prediction_def raise_def)

lemma failing_samples:
  "create_pyramid_level no_upsampling (Ext 0) (Some (Ext 1)) None 4 256 [] =
     (Inl (FrameworkError ''upsampling rejected''), [Out (conv_1x1 256 ''C4_reduced'') [Ext 0]])"
  "semantic_upsample no_upsampling (Ext 0) 1 256 None [] =
     (Inl (FrameworkError ''upsampling rejected''), [Out (conv_up 256) [Ext 0]])"
  "semantic_prediction no_upsampling [''Q0''] [Ext 0] 0 None 256 256 3 [] =
     (Inl AttributeError, [Out (conv_up 256) [Ext 0]])"
  "fst (create_semantic_head no_upsampling [] [] None 2 3 128 []) = (Inl IndexError, [])"
  by code_simp+

theorem errors_raised_by_the_graph_functions_witness:
  "create_pyramid_level no_upsampling (Ext 0) (Some (Ext 1)) None 4 256 [] =
     (Inl (FrameworkError ''upsampling rejected''), [Out (conv_1x1 256 ''C4_reduced'') [Ext 0]])
   \<and> is_framework_error (FrameworkError ''upsampling rejected'')
   \<and> semantic_upsample no_upsampling (Ext 0) 1 256 None [] =
     (Inl (FrameworkError ''upsampling rejected''), [Out (conv_up 256) [Ext 0]])
   \<and> semantic_prediction no_upsampling [''Q0''] [Ext 0] 0 None 256 256 3 [] =
     (Inl AttributeError, [Out (conv_up 256) [Ext 0]])
   \<and> (None :: tensor option) = None
   \<and> fst (create_semantic_head no_upsampling [] [] None 2 3 128 []) = (Inl IndexError, [])"
  using errors_raised_by_the_graph_functions
          [of no_upsampling "Ext 0" "Some (Ext 1)" None 4 256 "[]" "Ext 0" 1 256 None
              "[''Q0'']" "[Ext 0]" 0 None 256 256 3 "[]" "[]" None 2 3 128]
        failing_samples
  by simp

subsection \<open>Names, levels and sort keys\<close>
















subsection \<open>\<^verbatim>\<open>__create_pyramid_features\<close>: the lists it returns\<close>

lemma seq_Inr_E:
  assumes "seq m f s = (Inr y, s2)"
  obtains x s1 where "m s = (Inr x, s1)" and "f x s1 = (Inr y, s2)"
  using seq_Inr_D[OF assms] by blast



lemma lookup_all_Inr_D:
  "lookup_all d ns = Inr vs \<Longrightarrow>
     length vs = length ns \<and> (\<forall>i<length ns. map_of d (ns ! i) = Some (vs ! i))"
proof (induction ns arbitrary: vs)
  case Nil
  then show ?case by simp
next
  case (Cons n ns)
  from Cons.prems obtain v vs' where v: "map_of d n = Some v"
    and r: "lookup_all d ns = Inr vs'" and vs: "vs = v # vs'"
    by (auto split: option.splits sum.splits)
  from Cons.IH[OF r] v vs show ?case
    by (auto simp: nth_Cons split: nat.splits)
qed

lemma derive_backbone_Inr_D:
  assumes "derive_backbone d = Inr (names, feats)"
  shows "names = sort_key key_or_zero (map fst d)" and "lookup_all d names = Inr feats"
  using assms
  by (auto simp: derive_backbone_def sort_names_def split: sum.splits if_splits)






















text \<open>
  Why the form of the backbone names matters: the sort key is \<^verbatim>\<open>int(name[1:])\<close>, the
  level is the first run of digits. For keys that are not of the documented form, such as
  \<^verbatim>\<open>C-3\<close> beside \<^verbatim>\<open>C1\<close>, the keys are -3 and 1 and the levels 3 and 1.
\<close>

lemma sort_key_and_level_differ:
  "map_sum id fst
     (fst (create_pyramid_features accept_all
             \<lparr>backbone_dict = Some [(''C-3'', Ext 3), (''C1'', Ext 1)],
              get_pyramid_layer_outputs = None\<rparr> [] [] 256 []))
     = Inr [''P3'', ''P1'', ''P2'', ''P3'']
   \<and> levels_of [''P3'', ''P1'', ''P2'', ''P3''] = Inr [3, 1, 2, 3]
   \<and> \<not> level_name ''C-3''"
  by code_simp



subsection \<open>Every tensor comes from a layer call\<close>

lemma wired_mono: "wired A new \<Longrightarrow> A \<subseteq> B \<Longrightarrow> wired B new"
proof (induction new arbitrary: A B)
  case Nil
  show ?case by simp
next
  case (Cons t ts)
  from Cons.prems
  have a: "case t of Ext k \<Rightarrow> False | Out l xs \<Rightarrow> used_layer l \<and> set xs \<subseteq> B"
    by (auto split: tensor.splits)
  from Cons.prems have "wired (insert t A) ts" and "insert t A \<subseteq> insert t B" by auto
  then have "wired (insert t B) ts" by (rule Cons.IH)
  with a show ?case by simp
qed

lemma wired_append: "wired A n1 \<Longrightarrow> wired (A \<union> set n1) n2 \<Longrightarrow> wired A (n1 @ n2)"
proof (induction n1 arbitrary: A)
  case Nil
  then show ?case by simp
next
  case (Cons t ts)
  from Cons.prems(2) have "wired (insert t A \<union> set ts) n2" by simp
  with Cons.prems(1) Cons.IH[of "insert t A"] show ?case by simp
qed

lemma builds_from_I:
  assumes "\<And>s. \<exists>new. snd (m s) = s @ new \<and> wired A new
                \<and> (case fst (m s) of Inl e \<Rightarrow> True | Inr y \<Rightarrow> out y \<subseteq> A \<union> set new)"
  shows "builds_from A m out"
  using assms by (simp add: builds_from_def)

lemma builds_from_D:
  assumes "builds_from A m out"
  shows "\<exists>new. snd (m s) = s @ new \<and> wired A new
           \<and> (\<forall>y. fst (m s) = Inr y \<longrightarrow> out y \<subseteq> A \<union> set new)"
proof -
  from assms obtain new where a: "snd (m s) = s @ new" and b: "wired A new"
    and c: "case fst (m s) of Inl e \<Rightarrow> True | Inr y \<Rightarrow> out y \<subseteq> A \<union> set new"
    unfolding builds_from_def by blast
  from c have "\<forall>y. fst (m s) = Inr y \<longrightarrow> out y \<subseteq> A \<union> set new"
    by (cases "fst (m s)") simp_all
  with a b show ?thesis by blast
qed

lemma builds_ret: "out x \<subseteq> A \<Longrightarrow> builds_from A (ret x) out"
  by (rule builds_from_I) (simp add: ret_def)

lemma builds_raise: "builds_from A (raise e) out"
  by (rule builds_from_I) (simp add: raise_def)

lemma builds_lift: "(\<And>x. r = Inr x \<Longrightarrow> out x \<subseteq> A) \<Longrightarrow> builds_from A (lift r) out"
  by (cases r) (simp_all add: lift_def builds_ret builds_raise)

lemma builds_lift_fw: "(\<And>x. out x \<subseteq> A) \<Longrightarrow> builds_from A (lift_fw r) out"
  by (cases r) (simp_all add: lift_fw_def builds_ret builds_raise)

lemma used_layer_convs [simp]:
  "used_layer (conv_1x1 n nm)" "used_layer (conv_3x3 n nm)" "used_layer (conv_up n)"
  "used_layer (conv_stride2 n nm)"
  by (simp_all add: conv_1x1_def conv_3x3_def conv_up_def conv_stride2_def)

lemma builds_call_layer:
  "set xs \<subseteq> A \<Longrightarrow> used_layer l \<Longrightarrow> builds_from A (call_layer fw l xs) (\<lambda>y. {y})"
  by (rule builds_from_I) (simp add: call_layer_def split: option.splits)

lemma builds_mono:
  assumes "builds_from A m out" and "A \<subseteq> B"
  shows "builds_from B m out"
proof (rule builds_from_I)
  fix s
  from builds_from_D[OF assms(1), of s] obtain new where
    a: "snd (m s) = s @ new" and b: "wired A new"
    and c: "\<forall>y. fst (m s) = Inr y \<longrightarrow> out y \<subseteq> A \<union> set new"
    by blast
  from b assms(2) have "wired B new" by (rule wired_mono)
  moreover from c assms(2) have
    "case fst (m s) of Inl e \<Rightarrow> True | Inr y \<Rightarrow> out y \<subseteq> B \<union> set new"
    by (auto split: sum.splits)
  ultimately show "\<exists>new. snd (m s) = s @ new \<and> wired B new
                \<and> (case fst (m s) of Inl e \<Rightarrow> True | Inr y \<Rightarrow> out y \<subseteq> B \<union> set new)"
    using a by blast
qed

lemma builds_weaken:
  assumes "builds_from A m out" and "\<And>y. out' y \<subseteq> out y"
  shows "builds_from A m out'"
proof (rule builds_from_I)
  fix s
  from builds_from_D[OF assms(1), of s] obtain new where
    a: "snd (m s) = s @ new" and b: "wired A new"
    and c: "\<forall>y. fst (m s) = Inr y \<longrightarrow> out y \<subseteq> A \<union> set new"
    by blast
  from c assms(2) have
    "case fst (m s) of Inl e \<Rightarrow> True | Inr y \<Rightarrow> out' y \<subseteq> A \<union> set new"
    by (fastforce split: sum.splits)
  with a b show "\<exists>new. snd (m s) = s @ new \<and> wired A new
                \<and> (case fst (m s) of Inl e \<Rightarrow> True | Inr y \<Rightarrow> out' y \<subseteq> A \<union> set new)"
    by blast
qed

lemma builds_seq:
  assumes m: "builds_from A m out1"
    and f: "\<And>x B. A \<subseteq> B \<Longrightarrow> out1 x \<subseteq> B \<Longrightarrow> builds_from B (f x) out2"
  shows "builds_from A (seq m f) out2"
proof (rule builds_from_I)
  fix s
  from builds_from_D[OF m, of s] obtain n1 where
    a: "snd (m s) = s @ n1" and b: "wired A n1"
    and c: "\<forall>y. fst (m s) = Inr y \<longrightarrow> out1 y \<subseteq> A \<union> set n1"
    by blast
  show "\<exists>new. snd (seq m f s) = s @ new \<and> wired A new
          \<and> (case fst (seq m f s) of Inl e \<Rightarrow> True | Inr y \<Rightarrow> out2 y \<subseteq> A \<union> set new)"
  proof (cases "fst (m s)")
    case (Inl e)
    then have "seq m f s = (Inl e, s @ n1)"
      using a by (cases "m s") (simp add: seq_def)
    with b show ?thesis by auto
  next
    case (Inr x)
    then have sq: "seq m f s = f x (s @ n1)"
      using a by (cases "m s") (simp add: seq_def)
    from c Inr have "builds_from (A \<union> set n1) (f x) out2"
      by (intro f) auto
    from builds_from_D[OF this, of "s @ n1"] obtain n2 where
      a2: "snd (f x (s @ n1)) = (s @ n1) @ n2"
      and b2: "wired (A \<union> set n1) n2"
      and c2: "\<forall>y. fst (f x (s @ n1)) = Inr y \<longrightarrow> out2 y \<subseteq> (A \<union> set n1) \<union> set n2"
      by blast
    from b b2 have "wired A (n1 @ n2)" by (rule wired_append)
    moreover from a2 sq have "snd (seq m f s) = s @ (n1 @ n2)" by simp
    moreover from c2 sq have
      "case fst (seq m f s) of Inl e \<Rightarrow> True | Inr y \<Rightarrow> out2 y \<subseteq> A \<union> set (n1 @ n2)"
      by (auto split: sum.splits)
    ultimately show ?thesis by blast
  qed
qed

lemma builds_layer_then:
  assumes "set xs \<subseteq> A"
    and "\<And>y B. A \<subseteq> B \<Longrightarrow> y \<in> B \<Longrightarrow> builds_from B (f y) out"
    and "used_layer l"
  shows "builds_from A (seq (call_layer fw l xs) f) out"
proof (rule builds_seq[where ?out1.0="\<lambda>y. {y}"])
  from assms(1,3) show "builds_from A (call_layer fw l xs) (\<lambda>y. {y})"
    by (rule builds_call_layer)
next
  fix x B
  assume "A \<subseteq> B" and "{x} \<subseteq> B"
  then show "builds_from B (f x) out" by (intro assms(2)) simp_all
qed

lemma builds_create_pyramid_level:
  assumes "backbone_input \<in> A" and "set_option upsamplelike_input \<subseteq> A"
    and "set_option addition_input \<subseteq> A"
  shows "builds_from A
           (create_pyramid_level fw backbone_input upsamplelike_input addition_input level
              feature_size)
           (\<lambda>r. insert (fst r) (set_option (snd r)))"
  using assms
  by (auto simp: builds_from_def create_pyramid_level_def Let_def seq_def ret_def call_layer_def
           split: option.splits)

lemma builds_upsample_loop:
  assumes "x \<in> A" and "set_option t \<subseteq> A"
  shows "builds_from A (upsample_loop fw n nf t is x) (\<lambda>y. {y})"
  using assms
proof (induction "is" arbitrary: x A)
  case Nil
  then show ?case by (simp add: builds_ret)
next
  case (Cons i "is")
  show ?case
    unfolding upsample_loop.simps
  proof (rule builds_layer_then)
    from Cons.prems show "set [x] \<subseteq> A" by simp
  next
    fix y B
    assume AB: "A \<subseteq> B" and y: "y \<in> B"
    with Cons.prems have t: "set_option t \<subseteq> B" by auto
    have step: "\<And>l xs. set xs \<subseteq> B \<Longrightarrow> used_layer l \<Longrightarrow>
        builds_from B (seq (call_layer fw l xs) (\<lambda>x. upsample_loop fw n nf t is x)) (\<lambda>y. {y})"
    proof (rule builds_layer_then)
      fix l xs z C
      assume "B \<subseteq> C" and "z \<in> C"
      with t show "builds_from C (upsample_loop fw n nf t is z) (\<lambda>y. {y})"
        by (intro Cons.IH) auto
    qed simp_all
    show "builds_from B
            (seq (case t of
                    None \<Rightarrow> call_layer fw (UpSampling2D (2, 2)) [y]
                  | Some t \<Rightarrow>
                      if int i = n - 1 then call_layer fw (UpsampleLike None) [y, t]
                      else call_layer fw (UpSampling2D (2, 2)) [y])
               (upsample_loop fw n nf t is))
            (\<lambda>y. {y})"
    proof (cases t)
      case None
      from y show ?thesis
        unfolding None option.case by (intro step[unfolded None]) simp_all
    next
      case (Some a)
      with t have "a \<in> B" by simp
      with y show ?thesis
        unfolding Some option.case by (auto intro!: step[unfolded Some])
    qed
  qed simp
qed

lemma builds_semantic_upsample:
  assumes "x \<in> A" and "set_option t \<subseteq> A"
  shows "builds_from A (semantic_upsample fw x n nf t) (\<lambda>y. {y})"
  unfolding semantic_upsample_def
proof (rule builds_seq[where ?out1.0="\<lambda>y. {y}"])
  from assms show "builds_from A (upsample_loop fw n nf t [0..<nat n] x) (\<lambda>y. {y})"
    by (rule builds_upsample_loop)
next
  fix y B
  assume AB: "A \<subseteq> B" and "{y} \<subseteq> B"
  with assms have y: "y \<in> B" and t: "set_option t \<subseteq> B" by auto
  have "builds_from B
          (seq (call_layer fw (conv_up nf) [y])
             (\<lambda>x. case t of None \<Rightarrow> ret x | Some t \<Rightarrow> call_layer fw (UpsampleLike None) [x, t]))
          (\<lambda>y. {y})"
  proof (rule builds_layer_then)
    from y show "set [y] \<subseteq> B" by simp
  next
    fix z C
    assume "B \<subseteq> C" and "z \<in> C"
    with t show "builds_from C
                   (case t of None \<Rightarrow> ret z | Some t \<Rightarrow> call_layer fw (UpsampleLike None) [z, t])
                   (\<lambda>y. {y})"
      by (cases t) (auto intro!: builds_ret builds_call_layer)
  qed simp
  with y show "builds_from B
          (if n = 0
           then seq (call_layer fw (conv_up nf) [y])
                  (\<lambda>x. case t of None \<Rightarrow> ret x
                       | Some t \<Rightarrow> call_layer fw (UpsampleLike None) [x, t])
           else ret y) (\<lambda>y. {y})"
    by (simp add: builds_ret)
qed

lemma builds_add_all:
  assumes "acc \<in> A" and "set fs \<subseteq> A"
  shows "builds_from A (add_all fw acc fs) (\<lambda>y. {y})"
  using assms
proof (induction fs arbitrary: acc A)
  case Nil
  then show ?case by (simp add: builds_ret)
next
  case (Cons f fs)
  show ?case
    unfolding add_all.simps
  proof (rule builds_layer_then)
    from Cons.prems show "set [acc, f] \<subseteq> A" by simp
  next
    fix y B
    assume "A \<subseteq> B" and "y \<in> B"
    with Cons.prems show "builds_from B (add_all fw y fs) (\<lambda>y. {y})"
      by (intro Cons.IH) auto
  qed simp
qed

lemma builds_reshape:
  assumes "x \<in> A" and "set_option input_target \<subseteq> A"
  shows "builds_from A
           (case input_target of
              None \<Rightarrow> raise AttributeError
            | Some it \<Rightarrow>
                seq (lift_fw (shape_dim fw it 1)) (\<lambda>h.
                seq (lift_fw (shape_dim fw it 2)) (\<lambda>w.
                seq (lift_fw (shape_dim fw x (- 1))) (\<lambda>c.
                call_layer fw (Reshape [h, w, c]) [x]))))
           (\<lambda>y. {y})"
proof (cases input_target)
  case None
  then show ?thesis by (simp add: builds_raise)
next
  case (Some it)
  from assms(1) show ?thesis
    unfolding Some option.case
    apply (intro builds_seq[where ?out1.0="\<lambda>y. {}"] builds_lift_fw builds_call_layer)
    apply auto
    done
qed

lemma builds_prediction_tail:
  assumes "x \<in> A"
  shows "builds_from A
           (seq (call_layer fw (TensorProduct n_dense) [x]) (\<lambda>x.
            seq (call_layer fw (BatchNormalization (- 1)) [x]) (\<lambda>x.
            seq (call_layer fw (Activation ''relu'' None) [x]) (\<lambda>x.
            seq (call_layer fw (TensorProduct n_classes) [x]) (\<lambda>x.
            call_layer fw (Softmax channel_axis) [x])))))
           (\<lambda>y. {y})"
  using assms
  by (intro builds_layer_then builds_call_layer) simp_all

lemma builds_semantic_prediction:
  assumes "set semantic_features \<subseteq> A" and "set_option input_target \<subseteq> A"
  shows "builds_from A
           (semantic_prediction fw semantic_names semantic_features target_level input_target
              n_filters n_dense n_classes)
           (\<lambda>y. {y})"
proof (cases semantic_features)
  case Nil
  then show ?thesis by (simp add: semantic_prediction_def builds_raise)
next
  case (Cons f0 rest)
  with assms(1) have f0: "f0 \<in> A" and rest: "set rest \<subseteq> A" by simp_all
  show ?thesis
    unfolding semantic_prediction_def Cons list.case Let_def
  proof (rule builds_seq[where ?out1.0="\<lambda>y. {y}"])
    from f0 rest show "builds_from A (add_all fw f0 rest) (\<lambda>y. {y})"
      by (rule builds_add_all)
  next
    fix sum B
    assume AB: "A \<subseteq> B" and "{sum} \<subseteq> B"
    then have sm: "sum \<in> B" by simp
    from AB assms(2) have it: "set_option input_target \<subseteq> B" by auto
    show "builds_from B
            (seq (lift (py_last semantic_names)) (\<lambda>last_name.
             seq (lift (first_level last_name)) (\<lambda>min_level.
             seq (semantic_upsample fw sum (min_level - target_level) 256 input_target) (\<lambda>x.
             seq (case input_target of
                    None \<Rightarrow> raise AttributeError
                  | Some it \<Rightarrow>
                      seq (lift_fw (shape_dim fw it 1)) (\<lambda>h.
                      seq (lift_fw (shape_dim fw it 2)) (\<lambda>w.
                      seq (lift_fw (shape_dim fw x (- 1))) (\<lambda>c.
                      call_layer fw (Reshape [h, w, c]) [x])))) (\<lambda>x.
             seq (call_layer fw (TensorProduct n_dense) [x]) (\<lambda>x.
             seq (call_layer fw (BatchNormalization (- 1)) [x]) (\<lambda>x.
             seq (call_layer fw (Activation ''relu'' None) [x]) (\<lambda>x.
             seq (call_layer fw (TensorProduct n_classes) [x]) (\<lambda>x.
             call_layer fw
               (Softmax (if image_data_format fw = ''channels_first'' then 1 else - 1))
               [x])))))))))
            (\<lambda>y. {y})"
    proof (rule builds_seq[where ?out1.0="\<lambda>y. {}"])
      show "builds_from B (lift (py_last semantic_names)) (\<lambda>y. {})"
        by (rule builds_lift) simp
    next
      fix last_name C
      assume BC: "B \<subseteq> C"
      show "builds_from C
              (seq (lift (first_level last_name)) (\<lambda>min_level.
               seq (semantic_upsample fw sum (min_level - target_level) 256 input_target) (\<lambda>x.
               seq (case input_target of
                      None \<Rightarrow> raise AttributeError
                    | Some it \<Rightarrow>
                        seq (lift_fw (shape_dim fw it 1)) (\<lambda>h.
                        seq (lift_fw (shape_dim fw it 2)) (\<lambda>w.
                        seq (lift_fw (shape_dim fw x (- 1))) (\<lambda>c.
                        call_layer fw (Reshape [h, w, c]) [x])))) (\<lambda>x.
               seq (call_layer fw (TensorProduct n_dense) [x]) (\<lambda>x.
               seq (call_layer fw (BatchNormalization (- 1)) [x]) (\<lambda>x.
               seq (call_layer fw (Activation ''relu'' None) [x]) (\<lambda>x.
               seq (call_layer fw (TensorProduct n_classes) [x]) (\<lambda>x.
               call_layer fw
                 (Softmax (if image_data_format fw = ''channels_first'' then 1 else - 1))
                 [x]))))))))
              (\<lambda>y. {y})"
      proof (rule builds_seq[where ?out1.0="\<lambda>y. {}"])
        show "builds_from C (lift (first_level last_name)) (\<lambda>y. {})"
          by (rule builds_lift) simp
      next
        fix min_level D
        assume CD: "C \<subseteq> D"
        with BC sm it have smD: "sum \<in> D" and itD: "set_option input_target \<subseteq> D" by auto
        show "builds_from D
                (seq (semantic_upsample fw sum (min_level - target_level) 256 input_target)
                   (\<lambda>x.
                 seq (case input_target of
                        None \<Rightarrow> raise AttributeError
                      | Some it \<Rightarrow>
                          seq (lift_fw (shape_dim fw it 1)) (\<lambda>h.
                          seq (lift_fw (shape_dim fw it 2)) (\<lambda>w.
                          seq (lift_fw (shape_dim fw x (- 1))) (\<lambda>c.
                          call_layer fw (Reshape [h, w, c]) [x])))) (\<lambda>x.
                 seq (call_layer fw (TensorProduct n_dense) [x]) (\<lambda>x.
                 seq (call_layer fw (BatchNormalization (- 1)) [x]) (\<lambda>x.
                 seq (call_layer fw (Activation ''relu'' None) [x]) (\<lambda>x.
                 seq (call_layer fw (TensorProduct n_classes) [x]) (\<lambda>x.
                 call_layer fw
                   (Softmax (if image_data_format fw = ''channels_first'' then 1 else - 1))
                   [x])))))))
                (\<lambda>y. {y})"
        proof (rule builds_seq[where ?out1.0="\<lambda>y. {y}"])
          from smD itD show "builds_from D
                  (semantic_upsample fw sum (min_level - target_level) 256 input_target)
                  (\<lambda>y. {y})"
            by (rule builds_semantic_upsample)
        next
          fix x E
          assume DE: "D \<subseteq> E" and "{x} \<subseteq> E"
          with itD have xE: "x \<in> E" and itE: "set_option input_target \<subseteq> E" by auto
          show "builds_from E
                  (seq (case input_target of
                          None \<Rightarrow> raise AttributeError
                        | Some it \<Rightarrow>
                            seq (lift_fw (shape_dim fw it 1)) (\<lambda>h.
                            seq (lift_fw (shape_dim fw it 2)) (\<lambda>w.
                            seq (lift_fw (shape_dim fw x (- 1))) (\<lambda>c.
                            call_layer fw (Reshape [h, w, c]) [x])))) (\<lambda>x.
                   seq (call_layer fw (TensorProduct n_dense) [x]) (\<lambda>x.
                   seq (call_layer fw (BatchNormalization (- 1)) [x]) (\<lambda>x.
                   seq (call_layer fw (Activation ''relu'' None) [x]) (\<lambda>x.
                   seq (call_layer fw (TensorProduct n_classes) [x]) (\<lambda>x.
                   call_layer fw
                     (Softmax (if image_data_format fw = ''channels_first'' then 1 else - 1))
                     [x]))))))
                  (\<lambda>y. {y})"
          proof (rule builds_seq[where ?out1.0="\<lambda>y. {y}"])
            from xE itE show "builds_from E
                    (case input_target of
                       None \<Rightarrow> raise AttributeError
                     | Some it \<Rightarrow>
                         seq (lift_fw (shape_dim fw it 1)) (\<lambda>h.
                         seq (lift_fw (shape_dim fw it 2)) (\<lambda>w.
                         seq (lift_fw (shape_dim fw x (- 1))) (\<lambda>c.
                         call_layer fw (Reshape [h, w, c]) [x]))))
                    (\<lambda>y. {y})"
              by (rule builds_reshape)
          next
            fix z F
            assume "E \<subseteq> F" and "{z} \<subseteq> F"
            then have "z \<in> F" by simp
            then show "builds_from F
                    (seq (call_layer fw (TensorProduct n_dense) [z]) (\<lambda>x.
                     seq (call_layer fw (BatchNormalization (- 1)) [x]) (\<lambda>x.
                     seq (call_layer fw (Activation ''relu'' None) [x]) (\<lambda>x.
                     seq (call_layer fw (TensorProduct n_classes) [x]) (\<lambda>x.
                     call_layer fw
                       (Softmax (if image_data_format fw = ''channels_first'' then 1 else - 1))
                       [x])))))
                    (\<lambda>y. {y})"
              by (rule builds_prediction_tail)
          qed
        qed
      qed
    qed
  qed
qed

lemma builds_head_loop:
  assumes "snd ` set zs \<subseteq> A" and "set sf \<subseteq> A"
  shows "builds_from A (head_loop fw target_level n_filters zs (sf, sn)) (\<lambda>r. set (fst r))"
  using assms
proof (induction zs arbitrary: sf sn A)
  case Nil
  then show ?case by (simp add: builds_ret)
next
  case (Cons z zs)
  obtain N P where z: "z = (N, P)" by (cases z)
  show ?case
    unfolding z head_loop.simps Let_def
  proof (rule builds_seq[where ?out1.0="\<lambda>y. {}"])
    show "builds_from A (lift (first_level N)) (\<lambda>y. {})"
      by (rule builds_lift) simp
  next
    fix level B
    assume AB: "A \<subseteq> B"
    with Cons.prems have P: "P \<in> B" and sf: "set sf \<subseteq> B" and zs: "snd ` set zs \<subseteq> B"
      by (auto simp: z)
    show "builds_from B
            (seq (semantic_upsample fw P (level - target_level) n_filters
                    (if 0 < length sf then Some (last sf) else None))
               (\<lambda>q. head_loop fw target_level n_filters zs
                      (sf @ [q], sn @ [''Q'' @ str_int level])))
            (\<lambda>r. set (fst r))"
    proof (rule builds_seq[where ?out1.0="\<lambda>y. {y}"])
      from sf have "set_option (if 0 < length sf then Some (last sf) else None) \<subseteq> B"
        by auto
      with P show "builds_from B
                     (semantic_upsample fw P (level - target_level) n_filters
                        (if 0 < length sf then Some (last sf) else None))
                     (\<lambda>y. {y})"
        by (rule builds_semantic_upsample)
    next
      fix q C
      assume "B \<subseteq> C" and "{q} \<subseteq> C"
      with sf zs have "snd ` set zs \<subseteq> C" and "set (sf @ [q]) \<subseteq> C" by auto
      then show "builds_from C
                   (head_loop fw target_level n_filters zs
                      (sf @ [q], sn @ [''Q'' @ str_int level]))
                   (\<lambda>r. set (fst r))"
        by (rule Cons.IH)
    qed
  qed
qed

lemma builds_create_semantic_head:
  assumes "set pyramid_features \<subseteq> A" and "set_option input_target \<subseteq> A"
  shows "builds_from A
           (\<lambda>s. fst (create_semantic_head fw pyramid_names pyramid_features input_target
                        target_level n_classes n_filters s))
           (\<lambda>y. {y})"
proof -
  have eq: "(\<lambda>s. fst (create_semantic_head fw pyramid_names pyramid_features input_target
                        target_level n_classes n_filters s))
        = seq (head_loop fw target_level n_filters
                 (zip (rev pyramid_names) (rev pyramid_features)) ([], []))
            (\<lambda>r. semantic_prediction fw (snd r) (fst r) 0 input_target 256 256 n_classes)"
    by (rule ext) (simp add: create_semantic_head_def Let_def case_prod_unfold)
  show ?thesis
    unfolding eq
  proof (rule builds_seq[where ?out1.0="\<lambda>r. set (fst r)"])
    have "\<And>a b. (a, b) \<in> set (zip (rev pyramid_names) (rev pyramid_features))
              \<Longrightarrow> b \<in> set pyramid_features"
      by (drule set_zip_rightD) simp
    with assms(1) have "snd ` set (zip (rev pyramid_names) (rev pyramid_features)) \<subseteq> A"
      by auto
    then show "builds_from A
                 (head_loop fw target_level n_filters
                    (zip (rev pyramid_names) (rev pyramid_features)) ([], []))
                 (\<lambda>r. set (fst r))"
      by (rule builds_head_loop) simp
  next
    fix r :: "tensor list \<times> string list" and B
    assume "A \<subseteq> B" and "set (fst r) \<subseteq> B"
    with assms(2) show "builds_from B
            (semantic_prediction fw (snd r) (fst r) 0 input_target 256 256 n_classes)
            (\<lambda>y. {y})"
      by (intro builds_semantic_prediction) auto
  qed
qed

lemma py_nth_in_set: "py_nth xs i = Inr x \<Longrightarrow> x \<in> set xs"
  by (auto simp: py_nth_def split: if_splits)

lemma py_last_in_set: "py_last xs = Inr x \<Longrightarrow> x \<in> set xs"
  by (auto simp: py_last_def split: list.splits)

lemma builds_pick_inputs:
  assumes "set bf \<subseteq> A" and "\<Union>(set_option ` set pus) \<subseteq> A"
  shows "builds_from A
           (if i = 0
            then seq (lift (py_nth bf (i + 1))) (\<lambda>u. ret (Some u, None))
            else if int i = int (length bn) - 1
            then seq (lift (py_last pus)) (\<lambda>a. ret (None, a))
            else seq (lift (py_nth bf (i + 1))) (\<lambda>u.
                 seq (lift (py_last pus)) (\<lambda>a. ret (Some u, a))))
           (\<lambda>r. set_option (fst r) \<union> set_option (snd r))"
  using assms
  by (auto simp: builds_from_def seq_def lift_def ret_def raise_def
           split: sum.splits dest!: py_nth_in_set py_last_in_set)

lemma builds_pyramid_step:
  assumes "set bf \<subseteq> A" and "acc_tensors acc \<subseteq> A"
  shows "builds_from A (pyramid_step fw bn bf i acc) acc_tensors"
proof -
  obtain pn pfs pus where acc: "acc = (pn, pfs, pus)" by (cases acc)
  from assms(2) have pfs: "set pfs \<subseteq> A" and pus: "\<Union>(set_option ` set pus) \<subseteq> A"
    by (simp_all add: acc acc_tensors_def)
  show ?thesis
    unfolding acc pyramid_step_def prod.case Let_def
  proof (rule builds_seq[where ?out1.0="\<lambda>y. {}"])
    show "builds_from A (lift (py_nth bn i)) (\<lambda>y. {})"
      by (rule builds_lift) simp
  next
    fix N B
    assume AB: "A \<subseteq> B"
    show "builds_from B
            (seq (lift (first_level N)) (\<lambda>level.
             seq (lift (py_nth bf i)) (\<lambda>backbone_input.
             seq (if i = 0
                  then seq (lift (py_nth bf (i + 1))) (\<lambda>u. ret (Some u, None))
                  else if int i = int (length bn) - 1
                  then seq (lift (py_last pus)) (\<lambda>a. ret (None, a))
                  else seq (lift (py_nth bf (i + 1))) (\<lambda>u.
                       seq (lift (py_last pus)) (\<lambda>a. ret (Some u, a))))
               (\<lambda>(upsamplelike_input, addition_input).
             seq (create_pyramid_level fw backbone_input upsamplelike_input addition_input
                    level 256)
               (\<lambda>(pf, pu).
             ret (pn @ [''P'' @ str_int level], pfs @ [pf], pus @ [pu]))))))
            acc_tensors"
    proof (rule builds_seq[where ?out1.0="\<lambda>y. {}"])
      show "builds_from B (lift (first_level N)) (\<lambda>y. {})"
        by (rule builds_lift) simp
    next
      fix level C
      assume BC: "B \<subseteq> C"
      show "builds_from C
              (seq (lift (py_nth bf i)) (\<lambda>backbone_input.
               seq (if i = 0
                    then seq (lift (py_nth bf (i + 1))) (\<lambda>u. ret (Some u, None))
                    else if int i = int (length bn) - 1
                    then seq (lift (py_last pus)) (\<lambda>a. ret (None, a))
                    else seq (lift (py_nth bf (i + 1))) (\<lambda>u.
                         seq (lift (py_last pus)) (\<lambda>a. ret (Some u, a))))
                 (\<lambda>(upsamplelike_input, addition_input).
               seq (create_pyramid_level fw backbone_input upsamplelike_input addition_input
                      level 256)
                 (\<lambda>(pf, pu).
               ret (pn @ [''P'' @ str_int level], pfs @ [pf], pus @ [pu])))))
              acc_tensors"
      proof (rule builds_seq[where ?out1.0="\<lambda>y. {y}"])
        from assms(1) AB BC show "builds_from C (lift (py_nth bf i)) (\<lambda>y. {y})"
          by (intro builds_lift) (auto dest: py_nth_in_set)
      next
        fix backbone_input D
        assume CD: "C \<subseteq> D" and "{backbone_input} \<subseteq> D"
        then have bi: "backbone_input \<in> D" by simp
        from assms(1) pfs pus AB BC CD have bfD: "set bf \<subseteq> D" and pfsD: "set pfs \<subseteq> D"
          and pusD: "\<Union>(set_option ` set pus) \<subseteq> D"
          by auto
        show "builds_from D
                (seq (if i = 0
                      then seq (lift (py_nth bf (i + 1))) (\<lambda>u. ret (Some u, None))
                      else if int i = int (length bn) - 1
                      then seq (lift (py_last pus)) (\<lambda>a. ret (None, a))
                      else seq (lift (py_nth bf (i + 1))) (\<lambda>u.
                           seq (lift (py_last pus)) (\<lambda>a. ret (Some u, a))))
                   (\<lambda>(upsamplelike_input, addition_input).
                 seq (create_pyramid_level fw backbone_input upsamplelike_input addition_input
                        level 256)
                   (\<lambda>(pf, pu).
                 ret (pn @ [''P'' @ str_int level], pfs @ [pf], pus @ [pu]))))
                acc_tensors"
        proof (rule builds_seq[where ?out1.0="\<lambda>r. set_option (fst r) \<union> set_option (snd r)"])
          from bfD pusD show "builds_from D
                  (if i = 0
                   then seq (lift (py_nth bf (i + 1))) (\<lambda>u. ret (Some u, None))
                   else if int i = int (length bn) - 1
                   then seq (lift (py_last pus)) (\<lambda>a. ret (None, a))
                   else seq (lift (py_nth bf (i + 1))) (\<lambda>u.
                        seq (lift (py_last pus)) (\<lambda>a. ret (Some u, a))))
                  (\<lambda>r. set_option (fst r) \<union> set_option (snd r))"
            by (rule builds_pick_inputs)
        next
          fix r :: "tensor option \<times> tensor option" and E
          assume DE: "D \<subseteq> E" and r: "set_option (fst r) \<union> set_option (snd r) \<subseteq> E"
          obtain u a where ua: "r = (u, a)" by (cases r)
          from r have u: "set_option u \<subseteq> E" and a: "set_option a \<subseteq> E"
            by (simp_all add: ua)
          from bi DE have biE: "backbone_input \<in> E" by auto
          show "builds_from E
                  (case r of
                     (upsamplelike_input, addition_input) \<Rightarrow>
                       seq (create_pyramid_level fw backbone_input upsamplelike_input
                              addition_input level 256)
                         (\<lambda>(pf, pu).
                       ret (pn @ [''P'' @ str_int level], pfs @ [pf], pus @ [pu])))
                  acc_tensors"
            unfolding ua prod.case
          proof (rule builds_seq[where ?out1.0="\<lambda>r. insert (fst r) (set_option (snd r))"])
            from biE u a show "builds_from E
                    (create_pyramid_level fw backbone_input u a level 256)
                    (\<lambda>r. insert (fst r) (set_option (snd r)))"
              by (rule builds_create_pyramid_level)
          next
            fix q :: "tensor \<times> tensor option" and F
            assume EF: "E \<subseteq> F" and q: "insert (fst q) (set_option (snd q)) \<subseteq> F"
            obtain pf pu where qq: "q = (pf, pu)" by (cases q)
            from pfsD pusD DE EF q have
              "acc_tensors (pn @ [''P'' @ str_int level], pfs @ [pf], pus @ [pu]) \<subseteq> F"
              by (auto simp: acc_tensors_def qq)
            then show "builds_from F
                    (case q of
                       (pf, pu) \<Rightarrow> ret (pn @ [''P'' @ str_int level], pfs @ [pf], pus @ [pu]))
                    acc_tensors"
              unfolding qq prod.case by (rule builds_ret)
          qed
        qed
      qed
    qed
  qed
qed

lemma builds_pyramid_loop:
  assumes "set bf \<subseteq> A" and "acc_tensors acc \<subseteq> A"
  shows "builds_from A (pyramid_loop fw bn bf is acc) acc_tensors"
  using assms
proof (induction "is" arbitrary: acc A)
  case Nil
  then show ?case by (simp add: builds_ret)
next
  case (Cons i "is")
  show ?case
    unfolding pyramid_loop.simps
  proof (rule builds_seq[where ?out1.0=acc_tensors])
    from Cons.prems show "builds_from A (pyramid_step fw bn bf i acc) acc_tensors"
      by (rule builds_pyramid_step)
  next
    fix acc1 B
    assume "A \<subseteq> B" and "acc_tensors acc1 \<subseteq> B"
    with Cons.prems(1) show "builds_from B (pyramid_loop fw bn bf is acc1) acc_tensors"
      by (intro Cons.IH) auto
  qed
qed

lemma derive_backbone_features:
  assumes "derive_backbone d = Inr (names, feats)"
  shows "set feats \<subseteq> snd ` set d"
proof
  fix v
  assume "v \<in> set feats"
  then obtain i where i: "i < length feats" and v: "v = feats ! i"
    by (auto simp: in_set_conv_nth)
  from lookup_all_Inr_D[OF derive_backbone_Inr_D(2)[OF assms]] i
  have "map_of d (names ! i) = Some (feats ! i)" by simp
  then have "(names ! i, feats ! i) \<in> set d" by (rule map_of_SomeD)
  with v show "v \<in> snd ` set d" by force
qed

lemma builds_pyramid_tail:
  assumes "set bfr \<subseteq> A" and "set pfs \<subseteq> A"
  shows "builds_from A
           (seq (lift (py_nth bnr 0)) (\<lambda>N.
            seq (lift (py_nth bfr 0)) (\<lambda>F.
            seq (lift (first_level N)) (\<lambda>l.
            seq (call_layer fw (conv_stride2 feature_size (''P'' @ str_int (l + 1))) [F])
              (\<lambda>P_minus_2.
            seq (lift (first_level N)) (\<lambda>la.
            seq (call_layer fw (Activation ''relu'' (Some (N @ ''_relu''))) [P_minus_2])
              (\<lambda>P_minus_1.
            seq (call_layer fw (conv_stride2 feature_size (''P'' @ str_int (la + 2)))
                   [P_minus_1])
              (\<lambda>P_minus_1.
            ret (rev ((''P'' @ str_int (la + 2)) # (''P'' @ str_int (l + 1)) # pn),
                 rev (P_minus_1 # P_minus_2 # pfs))))))))))
           (\<lambda>r. set (snd r))"
  using assms
  apply -
  apply (rule builds_seq[where ?out1.0="\<lambda>y. {}"])
   apply (rule builds_lift)
   apply simp
  apply (rule builds_seq[where ?out1.0="\<lambda>y. {y}"])
   apply (rule builds_lift)
   apply (fastforce dest: py_nth_in_set)
  apply (rule builds_seq[where ?out1.0="\<lambda>y. {}"])
   apply (rule builds_lift)
   apply simp
  apply (rule builds_layer_then)
   apply fastforce
  apply (rule builds_seq[where ?out1.0="\<lambda>y. {}"])
   apply (rule builds_lift)
   apply simp
  apply (rule builds_layer_then)
   apply fastforce
  apply (rule builds_layer_then)
   apply fastforce
  apply (rule builds_ret)
     apply (simp, blast)
    apply simp_all
  done

lemma builds_create_pyramid_features:
  "builds_from (dict_tensors g)
     (create_pyramid_features fw g backbone_names backbone_features feature_size)
     (\<lambda>r. set (snd r))"
proof (cases "backbone_dict g")
  case None
  then show ?thesis by (simp add: create_pyramid_features_def builds_raise)
next
  case (Some d)
  then have A: "dict_tensors g = snd ` set d" by (simp add: dict_tensors_def)
  show ?thesis
    unfolding create_pyramid_features_def Some option.case A Let_def
  proof (rule builds_seq[where ?out1.0="\<lambda>r. set (snd r)"])
    show "builds_from (snd ` set d) (lift (derive_backbone d)) (\<lambda>r. set (snd r))"
    proof (rule builds_lift)
      fix x
      assume "derive_backbone d = Inr x"
      then have "derive_backbone d = Inr (fst x, snd x)" by simp
      then show "set (snd x) \<subseteq> snd ` set d" by (rule derive_backbone_features)
    qed
  next
    fix r :: "string list \<times> tensor list" and B
    assume AB: "snd ` set d \<subseteq> B" and r: "set (snd r) \<subseteq> B"
    obtain names feats where rr: "r = (names, feats)" by (cases r)
    from r have feats: "set (rev feats) \<subseteq> B" by (simp add: rr)
    show "builds_from B
            (case r of
               (backbone_names, backbone_features) \<Rightarrow>
                 seq (pyramid_loop fw (rev backbone_names) (rev backbone_features)
                        [0..<length (rev backbone_names)] ([], [], []))
                   (\<lambda>(pyramid_names, pyramid_finals, pyramid_upsamples).
                      seq (lift (py_nth (rev backbone_names) 0)) (\<lambda>N.
                      seq (lift (py_nth (rev backbone_features) 0)) (\<lambda>F.
                      seq (lift (first_level N)) (\<lambda>l.
                      seq (call_layer fw (conv_stride2 feature_size (''P'' @ str_int (l + 1)))
                             [F])
                        (\<lambda>P_minus_2.
                      seq (lift (first_level N)) (\<lambda>la.
                      seq (call_layer fw (Activation ''relu'' (Some (N @ ''_relu'')))
                             [P_minus_2])
                        (\<lambda>P_minus_1.
                      seq (call_layer fw (conv_stride2 feature_size (''P'' @ str_int (la + 2)))
                             [P_minus_1])
                        (\<lambda>P_minus_1.
                      ret (rev ((''P'' @ str_int (la + 2)) # (''P'' @ str_int (l + 1))
                                  # pyramid_names),
                           rev (P_minus_1 # P_minus_2 # pyramid_finals)))))))))))
            (\<lambda>r. set (snd r))"
      unfolding rr prod.case
    proof (rule builds_seq[where ?out1.0=acc_tensors])
      from feats show "builds_from B
              (pyramid_loop fw (rev names) (rev feats) [0..<length (rev names)] ([], [], []))
              acc_tensors"
        by (rule builds_pyramid_loop) (simp add: acc_tensors_def)
    next
      fix acc :: "string list \<times> tensor list \<times> tensor option list" and C
      assume BC: "B \<subseteq> C" and acc: "acc_tensors acc \<subseteq> C"
      obtain pn pfs pus where aa: "acc = (pn, pfs, pus)" by (cases acc)
      from acc have pfs: "set pfs \<subseteq> C" by (simp add: aa acc_tensors_def)
      from feats BC have "set (rev feats) \<subseteq> C" by auto
      from this pfs show "builds_from C
              (case acc of
                 (pyramid_names, pyramid_finals, pyramid_upsamples) \<Rightarrow>
                   seq (lift (py_nth (rev names) 0)) (\<lambda>N.
                   seq (lift (py_nth (rev feats) 0)) (\<lambda>F.
                   seq (lift (first_level N)) (\<lambda>l.
                   seq (call_layer fw (conv_stride2 feature_size (''P'' @ str_int (l + 1)))
                          [F])
                     (\<lambda>P_minus_2.
                   seq (lift (first_level N)) (\<lambda>la.
                   seq (call_layer fw (Activation ''relu'' (Some (N @ ''_relu'')))
                          [P_minus_2])
                     (\<lambda>P_minus_1.
                   seq (call_layer fw (conv_stride2 feature_size (''P'' @ str_int (la + 2)))
                          [P_minus_1])
                     (\<lambda>P_minus_1.
                   ret (rev ((''P'' @ str_int (la + 2)) # (''P'' @ str_int (l + 1))
                               # pyramid_names),
                        rev (P_minus_1 # P_minus_2 # pyramid_finals))))))))))
              (\<lambda>r. set (snd r))"
        unfolding aa prod.case by (rule builds_pyramid_tail)
    qed
  qed
qed

lemma builds_make_model:
  "inputs \<in> A \<Longrightarrow> x \<in> A \<Longrightarrow> builds_from A (make_model fw inputs x nm) model_tensors"
  by (cases "model_check fw inputs x nm")
     (simp_all add: make_model_def builds_raise builds_ret)

lemma builds_after_features:
  assumes "inputs \<in> A" and "set (snd r) \<subseteq> A"
  shows "builds_from A
           (case r of
              (fpn_names, fpn_features) \<Rightarrow>
                seq (lift (levels_of fpn_names)) (\<lambda>levels.
                seq (lift (py_min levels)) (\<lambda>target_level.
                seq (\<lambda>s. fst (create_semantic_head fw (butlast fpn_names) (butlast fpn_features)
                                 (Some inputs) target_level n_classes 128 s))
                  (\<lambda>x. make_model fw inputs x nm))))
           model_tensors"
proof -
  obtain fpn_names fpn_features where r: "r = (fpn_names, fpn_features)" by (cases r)
  from assms(2) have f: "set (butlast fpn_features) \<subseteq> A"
    by (auto simp: r dest: in_set_butlastD)
  from assms(1) f show ?thesis
    unfolding r prod.case
    apply -
    apply (rule builds_seq[where ?out1.0="\<lambda>y. {}"])
     apply (rule builds_lift)
     apply simp
    apply (rule builds_seq[where ?out1.0="\<lambda>y. {}"])
     apply (rule builds_lift)
     apply simp
    apply (rule builds_seq[where ?out1.0="\<lambda>y. {y}"])
     apply (rule builds_create_semantic_head)
      apply fastforce
     apply fastforce
    apply (rule builds_make_model)
     apply fastforce
    apply fastforce
    done
qed

lemma builds_FPNet:
  assumes inp: "set_option inputs \<subseteq> A" and dict: "dict_tensors g \<subseteq> A"
    and backbone:
      "\<And>outputs_of b i k B. get_pyramid_layer_outputs g = Some outputs_of \<Longrightarrow>
         i \<in> B \<Longrightarrow> input_tensor k \<in> B \<Longrightarrow>
         builds_from B (outputs_of b i k) (\<lambda>r. set (snd r))"
  shows "builds_from A
           (FPNet fw g backbone input_shape inputs norm_method weights_arg pooling_arg
              required_channels n_classes nm)
           model_tensors"
  unfolding FPNet_def Let_def
proof (rule builds_seq[where ?out1.0="\<lambda>y. {y}"])
  from inp show "builds_from A
          (case inputs of None \<Rightarrow> call_layer fw (Input input_shape) [] | Some t \<Rightarrow> ret t)
          (\<lambda>y. {y})"
    by (cases inputs) (simp_all add: builds_ret builds_call_layer)
next
  fix i B
  assume AB: "A \<subseteq> B" and "{i} \<subseteq> B"
  then have i: "i \<in> B" by simp
  show "builds_from B
          (seq (call_layer fw (ImageNormalization2D norm_method) [i]) (\<lambda>norm.
           seq (call_layer fw (TensorProduct required_channels) [norm]) (\<lambda>fixed_inputs.
           case get_pyramid_layer_outputs g of
             None \<Rightarrow> raise (NameError ''get_pyramid_layer_outputs'')
           | Some outputs_of \<Rightarrow>
               seq (outputs_of backbone i
                      \<lparr>include_top = False, input_tensor = fixed_inputs,
                       weights = weights_arg, pooling = pooling_arg\<rparr>)
                 (\<lambda>(backbone_names, backbone_features).
               seq (create_pyramid_features fw g backbone_names backbone_features 256)
                 (\<lambda>(fpn_names, fpn_features).
               seq (lift (levels_of fpn_names)) (\<lambda>levels.
               seq (lift (py_min levels)) (\<lambda>target_level.
               seq (\<lambda>s. fst (create_semantic_head fw (butlast fpn_names)
                                (butlast fpn_features) (Some i) target_level n_classes 128 s))
                 (\<lambda>x. make_model fw i x nm))))))))
          model_tensors"
  proof (rule builds_layer_then)
    from i show "set [i] \<subseteq> B" by simp
  next
    fix norm C
    assume BC: "B \<subseteq> C" and norm: "norm \<in> C"
    show "builds_from C
            (seq (call_layer fw (TensorProduct required_channels) [norm]) (\<lambda>fixed_inputs.
             case get_pyramid_layer_outputs g of
               None \<Rightarrow> raise (NameError ''get_pyramid_layer_outputs'')
             | Some outputs_of \<Rightarrow>
                 seq (outputs_of backbone i
                        \<lparr>include_top = False, input_tensor = fixed_inputs,
                         weights = weights_arg, pooling = pooling_arg\<rparr>)
                   (\<lambda>(backbone_names, backbone_features).
                 seq (create_pyramid_features fw g backbone_names backbone_features 256)
                   (\<lambda>(fpn_names, fpn_features).
                 seq (lift (levels_of fpn_names)) (\<lambda>levels.
                 seq (lift (py_min levels)) (\<lambda>target_level.
                 seq (\<lambda>s. fst (create_semantic_head fw (butlast fpn_names)
                                  (butlast fpn_features) (Some i) target_level n_classes
                                  128 s))
                   (\<lambda>x. make_model fw i x nm)))))))
            model_tensors"
    proof (rule builds_layer_then)
      from norm show "set [norm] \<subseteq> C" by simp
    next
      fix fixed_inputs D
      assume CD: "C \<subseteq> D" and fixed: "fixed_inputs \<in> D"
      from i BC CD have iD: "i \<in> D" by auto
      from dict AB BC CD have dictD: "dict_tensors g \<subseteq> D" by auto
      show "builds_from D
              (case get_pyramid_layer_outputs g of
                 None \<Rightarrow> raise (NameError ''get_pyramid_layer_outputs'')
               | Some outputs_of \<Rightarrow>
                   seq (outputs_of backbone i
                          \<lparr>include_top = False, input_tensor = fixed_inputs,
                           weights = weights_arg, pooling = pooling_arg\<rparr>)
                     (\<lambda>(backbone_names, backbone_features).
                   seq (create_pyramid_features fw g backbone_names backbone_features 256)
                     (\<lambda>(fpn_names, fpn_features).
                   seq (lift (levels_of fpn_names)) (\<lambda>levels.
                   seq (lift (py_min levels)) (\<lambda>target_level.
                   seq (\<lambda>s. fst (create_semantic_head fw (butlast fpn_names)
                                    (butlast fpn_features) (Some i) target_level n_classes
                                    128 s))
                     (\<lambda>x. make_model fw i x nm))))))
              model_tensors"
      proof (cases "get_pyramid_layer_outputs g")
        case None
        then show ?thesis by (simp add: builds_raise)
      next
        case (Some outputs_of)
        show ?thesis
          unfolding Some option.case
        proof (rule builds_seq[where ?out1.0="\<lambda>r. set (snd r)"])
          from iD fixed show "builds_from D
                  (outputs_of backbone i
                     \<lparr>include_top = False, input_tensor = fixed_inputs,
                      weights = weights_arg, pooling = pooling_arg\<rparr>)
                  (\<lambda>r. set (snd r))"
            by (intro backbone[OF Some]) simp_all
        next
          fix r :: "string list \<times> tensor list" and E
          assume DE: "D \<subseteq> E"
          from iD dictD DE have iE: "i \<in> E" and dictE: "dict_tensors g \<subseteq> E" by auto
          obtain bn bf where r: "r = (bn, bf)" by (cases r)
          show "builds_from E
                  (case r of
                     (backbone_names, backbone_features) \<Rightarrow>
                       seq (create_pyramid_features fw g backbone_names backbone_features 256)
                         (\<lambda>(fpn_names, fpn_features).
                       seq (lift (levels_of fpn_names)) (\<lambda>levels.
                       seq (lift (py_min levels)) (\<lambda>target_level.
                       seq (\<lambda>s. fst (create_semantic_head fw (butlast fpn_names)
                                        (butlast fpn_features) (Some i) target_level
                                        n_classes 128 s))
                         (\<lambda>x. make_model fw i x nm)))))
                  model_tensors"
            unfolding r prod.case
          proof (rule builds_seq[where ?out1.0="\<lambda>r. set (snd r)"])
            from dictE show "builds_from E
                    (create_pyramid_features fw g bn bf 256) (\<lambda>r. set (snd r))"
              by (rule builds_mono[OF builds_create_pyramid_features])
          next
            fix q :: "string list \<times> tensor list" and F
            assume "E \<subseteq> F" and "set (snd q) \<subseteq> F"
            with iE have "i \<in> F" and "set (snd q) \<subseteq> F" by auto
            then show "builds_from F
                    (case q of
                       (fpn_names, fpn_features) \<Rightarrow>
                         seq (lift (levels_of fpn_names)) (\<lambda>levels.
                         seq (lift (py_min levels)) (\<lambda>target_level.
                         seq (\<lambda>s. fst (create_semantic_head fw (butlast fpn_names)
                                          (butlast fpn_features) (Some i) target_level
                                          n_classes 128 s))
                           (\<lambda>x. make_model fw i x nm))))
                    model_tensors"
              by (rule builds_after_features)
          qed
        qed
      qed
    qed simp
  qed simp
qed

lemma reshape_Inr_D:
  assumes "(case input_target of
              None \<Rightarrow> raise AttributeError
            | Some it \<Rightarrow>
                seq (lift_fw (shape_dim fw it 1)) (\<lambda>h.
                seq (lift_fw (shape_dim fw it 2)) (\<lambda>w.
                seq (lift_fw (shape_dim fw x (- 1))) (\<lambda>c.
                call_layer fw (Reshape [h, w, c]) [x])))) s = (Inr y, s')"
  shows "\<exists>sh. y = Out (Reshape sh) [x]"
  using assms
  by (cases input_target)
     (auto simp: raise_def seq_def lift_fw_def ret_def call_layer_def
           split: sum.splits option.splits prod.splits)

lemma semantic_prediction_Inr_D:
  assumes "semantic_prediction fw semantic_names semantic_features target_level input_target
             n_filters n_dense n_classes s = (Inr y, s')"
  shows "\<exists>u sh. y = Out (Softmax (if image_data_format fw = ''channels_first'' then 1 else - 1))
                       [Out (TensorProduct n_classes)
                          [Out (Activation ''relu'' None)
                             [Out (BatchNormalization (- 1))
                                [Out (TensorProduct n_dense) [Out (Reshape sh) [u]]]]]]"
proof (cases semantic_features)
  case Nil
  with assms show ?thesis by (simp add: semantic_prediction_def raise_def)
next
  case (Cons f0 rest)
  from assms show ?thesis
    unfolding semantic_prediction_def Cons list.case Let_def
    apply -
    apply (elim seq_Inr_E)
    apply (drule reshape_Inr_D)
    apply (clarsimp dest!: call_layer_Inr_D)
    done
qed

lemma semantic_prediction_sample:
  "fst (semantic_prediction accept_all [''P4'', ''P3''] [Ext 4, Ext 3] 3 (Some (Ext 9))
          256 256 3 []) =
     Inr (Out (Softmax (- 1))
            [Out (TensorProduct 3)
               [Out (Activation ''relu'' None)
                  [Out (BatchNormalization (- 1))
                     [Out (TensorProduct 256)
                        [Out (Reshape [None, None, None])
                           [Out (UpsampleLike None)
                              [Out (conv_up 256) [Out (Add None) [Ext 4, Ext 3]],
                               Ext 9]]]]]]])"
  by code_simp

text \<open>
  Claim C8 says that every tensor operation is delegated to the framework's own layer
  builders. The upsampling in \<^verbatim>\<open>create_pyramid_level\<close> is done by
  \<^verbatim>\<open>UpsampleLike\<close>, which line 46 imports from the repository's own package
  \<^verbatim>\<open>deepcell.layers\<close>, not from Keras: on a sample call the second of the three
  layers created is not a Keras layer.
\<close>

theorem own_package_layer_counterexample:
  "snd (create_pyramid_level accept_all (Ext 0) (Some (Ext 1)) None 4 256 []) =
     [Out (Conv2D \<lparr>filters = 256, kernel_size = (1, 1), strides = (1, 1), padding = ''same'',
                   data_format = None, conv_name = Some ''C4_reduced''\<rparr>) [Ext 0],
      Out (UpsampleLike (Some ''P4_upsampled''))
        [Out (Conv2D \<lparr>filters = 256, kernel_size = (1, 1), strides = (1, 1),
                      padding = ''same'', data_format = None,
                      conv_name = Some ''C4_reduced''\<rparr>) [Ext 0],
         Ext 1],
      Out (Conv2D \<lparr>filters = 256, kernel_size = (3, 3), strides = (1, 1), padding = ''same'',
                   data_format = None, conv_name = Some ''P4''\<rparr>)
        [Out (Conv2D \<lparr>filters = 256, kernel_size = (1, 1), strides = (1, 1),
                      padding = ''same'', data_format = None,
                      conv_name = Some ''C4_reduced''\<rparr>) [Ext 0]]]
   \<and> layer_origin (UpsampleLike (Some ''P4_upsampled'')) = Deepcell
   \<and> \<not> keras_only (snd (create_pyramid_level accept_all (Ext 0) (Some (Ext 1)) None 4 256 []))"
  by (simp add: create_pyramid_level_def Let_def seq_def ret_def call_layer_def accept_all_def
        str_int_4 conv_1x1_def conv_3x3_def)

text \<open>
  Claim C8, amended. Every function of the file changes the graph only by appending
  outputs of layer calls that were accepted, each layer applied to tensors the caller
  supplied or to outputs of earlier layer calls, and every tensor a function returns is
  one the caller supplied or the output of such a call. The layers called are of the
  classes the file instantiates: never \<^verbatim>\<open>Concatenate\<close> or \<^verbatim>\<open>MaxPool2D\<close>. Among
  them \<^verbatim>\<open>UpsampleLike\<close>, \<^verbatim>\<open>TensorProduct\<close> and \<^verbatim>\<open>ImageNormalization2D\<close> are
  the repository's own, the others are Keras layers. The operations are performed by
  these layers: the first result of \<^verbatim>\<open>create_pyramid_level\<close> is the output of a
  \<^verbatim>\<open>Conv2D\<close> layer and its second result, when a template is given, of an
  \<^verbatim>\<open>UpsampleLike\<close> layer; the result of \<^verbatim>\<open>semantic_upsample\<close> for a positive
  \<open>n_upsample\<close> is the output of an \<^verbatim>\<open>UpSampling2D\<close> or \<^verbatim>\<open>UpsampleLike\<close> layer
  applied to the output of a \<^verbatim>\<open>Conv2D\<close> layer; the result of
  \<^verbatim>\<open>semantic_prediction\<close> is the output of a \<^verbatim>\<open>Softmax\<close> layer on a
  \<^verbatim>\<open>TensorProduct\<close>, a rectifying \<^verbatim>\<open>Activation\<close>, a \<^verbatim>\<open>BatchNormalization\<close>,
  a \<^verbatim>\<open>TensorProduct\<close> and a \<^verbatim>\<open>Reshape\<close> layer. For
  \<^verbatim>\<open>__create_pyramid_features\<close> the supplied tensors are those of
  \<^verbatim>\<open>backbone_dict\<close>; for \<^verbatim>\<open>FPNet\<close> the backbone outputs are obtained by a function
  that is not in the file, which is assumed to build its outputs in the same way.
\<close>

theorem tensors_come_from_layer_calls:
  "builds_from (insert backbone_input (set_option upsamplelike_input \<union> set_option addition_input))
     (create_pyramid_level fw backbone_input upsamplelike_input addition_input level feature_size)
     (\<lambda>r. insert (fst r) (set_option (snd r)))
   \<and> builds_from (insert x (set_option target))
       (semantic_upsample fw x n_upsample n_filters target) (\<lambda>y. {y})
   \<and> builds_from (set semantic_features \<union> set_option input_target)
       (semantic_prediction fw semantic_names semantic_features target_level input_target
          prediction_filters n_dense n_classes)
       (\<lambda>y. {y})
   \<and> builds_from (set pyramid_features \<union> set_option head_target)
       (\<lambda>s. fst (create_semantic_head fw pyramid_names pyramid_features head_target head_level
                    head_classes head_filters s))
       (\<lambda>y. {y})
   \<and> builds_from (dict_tensors g)
       (create_pyramid_features fw g backbone_names backbone_features pyramid_size)
       (\<lambda>r. set (snd r))
   \<and> ((\<forall>outputs_of b i k B.
          get_pyramid_layer_outputs g = Some outputs_of \<longrightarrow> i \<in> B \<longrightarrow> input_tensor k \<in> B \<longrightarrow>
          builds_from B (outputs_of b i k) (\<lambda>r. set (snd r)))
        \<longrightarrow> builds_from (set_option inputs \<union> dict_tensors g)
              (FPNet fw g backbone input_shape inputs norm_method weights_arg pooling_arg
                 required_channels model_classes nm)
              model_tensors)
   \<and> (\<forall>pf pu s'.
          create_pyramid_level fw backbone_input upsamplelike_input addition_input level
            feature_size s = (Inr (pf, pu), s') \<longrightarrow>
          (\<exists>xs. pf = Out (Conv2D \<lparr>filters = feature_size, kernel_size = (3, 3),
                                    strides = (1, 1), padding = ''same'', data_format = None,
                                    conv_name = Some (''P'' @ str_int level)\<rparr>) xs)
          \<and> (\<forall>u. upsamplelike_input = Some u \<longrightarrow>
                 (\<exists>xs. pu = Some (Out (UpsampleLike
                                         (Some (''P'' @ str_int level @ ''_upsampled''))) xs))))
   \<and> (\<forall>y s'. semantic_upsample fw x n_upsample n_filters target s = (Inr y, s') \<longrightarrow>
          0 < n_upsample \<longrightarrow>
          (\<exists>z. y = (case target of
                      None \<Rightarrow>
                        Out (UpSampling2D (2, 2))
                          [Out (Conv2D \<lparr>filters = n_filters, kernel_size = (3, 3),
                                        strides = (1, 1), padding = ''same'',
                                        data_format = Some ''channels_last'',
                                        conv_name = None\<rparr>) [z]]
                    | Some t \<Rightarrow>
                        Out (UpsampleLike None)
                          [Out (Conv2D \<lparr>filters = n_filters, kernel_size = (3, 3),
                                        strides = (1, 1), padding = ''same'',
                                        data_format = Some ''channels_last'',
                                        conv_name = None\<rparr>) [z], t])))
   \<and> (\<forall>y s'. semantic_prediction fw semantic_names semantic_features target_level
                 input_target prediction_filters n_dense n_classes s = (Inr y, s') \<longrightarrow>
          (\<exists>u sh. y = Out (Softmax (if image_data_format fw = ''channels_first''
                                     then 1 else - 1))
                         [Out (TensorProduct n_classes)
                            [Out (Activation ''relu'' None)
                               [Out (BatchNormalization (- 1))
                                  [Out (TensorProduct n_dense) [Out (Reshape sh) [u]]]]]]))
   \<and> (\<forall>l. layer_origin l = Deepcell \<longleftrightarrow>
            (\<exists>n. l = UpsampleLike n) \<or> (\<exists>n. l = TensorProduct n)
            \<or> (\<exists>m. l = ImageNormalization2D m))"
proof (intro conjI)
  show "builds_from
          (insert backbone_input (set_option upsamplelike_input \<union> set_option addition_input))
          (create_pyramid_level fw backbone_input upsamplelike_input addition_input level
             feature_size)
          (\<lambda>r. insert (fst r) (set_option (snd r)))"
    by (rule builds_create_pyramid_level) auto
  show "builds_from (insert x (set_option target))
          (semantic_upsample fw x n_upsample n_filters target) (\<lambda>y. {y})"
    by (rule builds_semantic_upsample) auto
  show "builds_from (set semantic_features \<union> set_option input_target)
          (semantic_prediction fw semantic_names semantic_features target_level input_target
             prediction_filters n_dense n_classes)
          (\<lambda>y. {y})"
    by (rule builds_semantic_prediction) auto
  show "builds_from (set pyramid_features \<union> set_option head_target)
          (\<lambda>s. fst (create_semantic_head fw pyramid_names pyramid_features head_target
                       head_level head_classes head_filters s))
          (\<lambda>y. {y})"
    by (rule builds_create_semantic_head) auto
  show "builds_from (dict_tensors g)
          (create_pyramid_features fw g backbone_names backbone_features pyramid_size)
          (\<lambda>r. set (snd r))"
    by (rule builds_create_pyramid_features)
  show "(\<forall>outputs_of b i k B.
          get_pyramid_layer_outputs g = Some outputs_of \<longrightarrow> i \<in> B \<longrightarrow> input_tensor k \<in> B \<longrightarrow>
          builds_from B (outputs_of b i k) (\<lambda>r. set (snd r)))
        \<longrightarrow> builds_from (set_option inputs \<union> dict_tensors g)
              (FPNet fw g backbone input_shape inputs norm_method weights_arg pooling_arg
                 required_channels model_classes nm)
              model_tensors"
  proof
    assume h: "\<forall>outputs_of b i k B.
          get_pyramid_layer_outputs g = Some outputs_of \<longrightarrow> i \<in> B \<longrightarrow> input_tensor k \<in> B \<longrightarrow>
          builds_from B (outputs_of b i k) (\<lambda>r. set (snd r))"
    show "builds_from (set_option inputs \<union> dict_tensors g)
          (FPNet fw g backbone input_shape inputs norm_method weights_arg pooling_arg
             required_channels model_classes nm)
          model_tensors"
    proof (rule builds_FPNet)
      fix outputs_of b i and k :: model_kwargs and B
      assume "get_pyramid_layer_outputs g = Some outputs_of" and "i \<in> B"
        and "input_tensor k \<in> B"
      with h show "builds_from B (outputs_of b i k) (\<lambda>r. set (snd r))" by blast
    qed simp_all
  qed
  show "\<forall>pf pu s'.
          create_pyramid_level fw backbone_input upsamplelike_input addition_input level
            feature_size s = (Inr (pf, pu), s') \<longrightarrow>
          (\<exists>xs. pf = Out (Conv2D \<lparr>filters = feature_size, kernel_size = (3, 3),
                                    strides = (1, 1), padding = ''same'', data_format = None,
                                    conv_name = Some (''P'' @ str_int level)\<rparr>) xs)
          \<and> (\<forall>u. upsamplelike_input = Some u \<longrightarrow>
                 (\<exists>xs. pu = Some (Out (UpsampleLike
                                         (Some (''P'' @ str_int level @ ''_upsampled''))) xs)))"
  proof (intro allI impI)
    fix pf pu s'
    assume h: "create_pyramid_level fw backbone_input upsamplelike_input addition_input level
                 feature_size s = (Inr (pf, pu), s')"
    show "(\<exists>xs. pf = Out (Conv2D \<lparr>filters = feature_size, kernel_size = (3, 3),
                                    strides = (1, 1), padding = ''same'', data_format = None,
                                    conv_name = Some (''P'' @ str_int level)\<rparr>) xs)
          \<and> (\<forall>u. upsamplelike_input = Some u \<longrightarrow>
                 (\<exists>xs. pu = Some (Out (UpsampleLike
                                         (Some (''P'' @ str_int level @ ''_upsampled''))) xs)))"
      unfolding create_pyramid_level_Inr_D(2)[OF h] create_pyramid_level_Inr_D(3)[OF h]
      by (simp add: conv_3x3_def)
  qed
  show "\<forall>y s'. semantic_upsample fw x n_upsample n_filters target s = (Inr y, s') \<longrightarrow>
          0 < n_upsample \<longrightarrow>
          (\<exists>z. y = (case target of
                      None \<Rightarrow>
                        Out (UpSampling2D (2, 2))
                          [Out (Conv2D \<lparr>filters = n_filters, kernel_size = (3, 3),
                                        strides = (1, 1), padding = ''same'',
                                        data_format = Some ''channels_last'',
                                        conv_name = None\<rparr>) [z]]
                    | Some t \<Rightarrow>
                        Out (UpsampleLike None)
                          [Out (Conv2D \<lparr>filters = n_filters, kernel_size = (3, 3),
                                        strides = (1, 1), padding = ''same'',
                                        data_format = Some ''channels_last'',
                                        conv_name = None\<rparr>) [z], t]))"
  proof (intro allI impI)
    fix y s'
    assume h: "semantic_upsample fw x n_upsample n_filters target s = (Inr y, s')"
      and p: "0 < n_upsample"
    from p show "\<exists>z. y = (case target of
                      None \<Rightarrow>
                        Out (UpSampling2D (2, 2))
                          [Out (Conv2D \<lparr>filters = n_filters, kernel_size = (3, 3),
                                        strides = (1, 1), padding = ''same'',
                                        data_format = Some ''channels_last'',
                                        conv_name = None\<rparr>) [z]]
                    | Some t \<Rightarrow>
                        Out (UpsampleLike None)
                          [Out (Conv2D \<lparr>filters = n_filters, kernel_size = (3, 3),
                                        strides = (1, 1), padding = ''same'',
                                        data_format = Some ''channels_last'',
                                        conv_name = None\<rparr>) [z], t])"
      unfolding semantic_upsample_Inr_D(1)[OF h]
      by (cases target)
         (simp_all add: upsampled_def last_round_def up_round_def conv_up_def)
  qed
  show "\<forall>y s'. semantic_prediction fw semantic_names semantic_features target_level
                 input_target prediction_filters n_dense n_classes s = (Inr y, s') \<longrightarrow>
          (\<exists>u sh. y = Out (Softmax (if image_data_format fw = ''channels_first''
                                     then 1 else - 1))
                         [Out (TensorProduct n_classes)
                            [Out (Activation ''relu'' None)
                               [Out (BatchNormalization (- 1))
                                  [Out (TensorProduct n_dense) [Out (Reshape sh) [u]]]]]])"
    by (intro allI impI) (rule semantic_prediction_Inr_D)
  show "\<forall>l. layer_origin l = Deepcell \<longleftrightarrow>
            (\<exists>n. l = UpsampleLike n) \<or> (\<exists>n. l = TensorProduct n)
            \<or> (\<exists>m. l = ImageNormalization2D m)"
  proof
    fix l
    show "layer_origin l = Deepcell \<longleftrightarrow>
            (\<exists>n. l = UpsampleLike n) \<or> (\<exists>n. l = TensorProduct n)
            \<or> (\<exists>m. l = ImageNormalization2D m)"
      by (cases l) simp_all
  qed
qed

lemma FPNet_sample:
  "FPNet accept_all file_globals ''resnet50'' [Some 32, Some 32, Some 1] None
     (Some ''whole_image'') None None 3 3 ''fpnet'' [] =
     (Inl (NameError ''get_pyramid_layer_outputs''),
      [Out (Input [Some 32, Some 32, Some 1]) [],
       Out (ImageNormalization2D (Some ''whole_image''))
         [Out (Input [Some 32, Some 32, Some 1]) []],
       Out (TensorProduct 3)
         [Out (ImageNormalization2D (Some ''whole_image''))
            [Out (Input [Some 32, Some 32, Some 1]) []]]])"
  by (simp add: FPNet_def file_globals_def accept_all_def seq_def ret_def raise_def
        call_layer_def Let_def)

lemma semantic_prediction_returns:
  "isl (fst (semantic_prediction accept_all [''P4'', ''P3''] [Ext 4, Ext 3] 3 (Some (Ext 9))
               256 256 3 [])) = False"
  by code_simp

theorem tensors_come_from_layer_calls_witness:
  "fst (semantic_upsample accept_all (Ext 0) 2 256 (Some (Ext 1)) []) =
     Inr (Out (UpsampleLike None)
            [Out (Conv2D \<lparr>filters = 256, kernel_size = (3, 3), strides = (1, 1),
                          padding = ''same'', data_format = Some ''channels_last'',
                          conv_name = None\<rparr>)
               [Out (UpSampling2D (2, 2))
                  [Out (Conv2D \<lparr>filters = 256, kernel_size = (3, 3), strides = (1, 1),
                                padding = ''same'', data_format = Some ''channels_last'',
                                conv_name = None\<rparr>) [Ext 0]]],
             Ext 1])
   \<and> wired {Ext 0, Ext 1} (snd (semantic_upsample accept_all (Ext 0) 2 256 (Some (Ext 1)) []))
   \<and> get_pyramid_layer_outputs file_globals = None
   \<and> wired {}
       [Out (Input [Some 32, Some 32, Some 1]) [],
        Out (ImageNormalization2D (Some ''whole_image''))
          [Out (Input [Some 32, Some 32, Some 1]) []],
        Out (TensorProduct 3)
          [Out (ImageNormalization2D (Some ''whole_image''))
             [Out (Input [Some 32, Some 32, Some 1]) []]]]
   \<and> (\<exists>u sh. fst (semantic_prediction accept_all [''P4'', ''P3''] [Ext 4, Ext 3] 3
                     (Some (Ext 9)) 256 256 3 []) =
         Inr (Out (Softmax (- 1))
                [Out (TensorProduct 3)
                   [Out (Activation ''relu'' None)
                      [Out (BatchNormalization (- 1))
                         [Out (TensorProduct 256) [Out (Reshape sh) [u]]]]]]))"
proof -
  note t = tensors_come_from_layer_calls
             [where fw=accept_all and x="Ext 0" and n_upsample=2 and n_filters=256
                and target="Some (Ext 1)" and g=file_globals and backbone="''resnet50''"
                and input_shape="[Some 32, Some 32, Some 1]" and inputs=None
                and norm_method="Some ''whole_image''" and weights_arg=None
                and pooling_arg=None and required_channels=3 and model_classes=3
                and nm="''fpnet''" and semantic_names="[''P4'', ''P3'']"
                and semantic_features="[Ext 4, Ext 3]" and target_level=3
                and input_target="Some (Ext 9)" and prediction_filters=256 and n_dense=256
                and n_classes=3 and s="[]"]
  have g: "get_pyramid_layer_outputs file_globals = None"
    by (simp add: file_globals_def)
  have "builds_from (insert (Ext 0) (set_option (Some (Ext 1))))
                 (semantic_upsample accept_all (Ext 0) 2 256 (Some (Ext 1))) (\<lambda>y. {y})"
    by (rule t[THEN conjunct2, THEN conjunct1])
  from builds_from_D[OF this, of "[]"]
  have a: "wired {Ext 0, Ext 1}
             (snd (semantic_upsample accept_all (Ext 0) 2 256 (Some (Ext 1)) []))"
    by (simp add: insert_commute)
  have "builds_from (set_option None \<union> dict_tensors file_globals)
              (FPNet accept_all file_globals ''resnet50'' [Some 32, Some 32, Some 1] None
                 (Some ''whole_image'') None None 3 3 ''fpnet'')
              model_tensors"
    by (rule t[THEN conjunct2, THEN conjunct2, THEN conjunct2, THEN conjunct2, THEN conjunct2,
                THEN conjunct1, THEN mp]) (simp add: g)
  from builds_from_D[OF this, of "[]"] have b: "wired {}
       [Out (Input [Some 32, Some 32, Some 1]) [],
        Out (ImageNormalization2D (Some ''whole_image''))
          [Out (Input [Some 32, Some 32, Some 1]) []],
        Out (TensorProduct 3)
          [Out (ImageNormalization2D (Some ''whole_image''))
             [Out (Input [Some 32, Some 32, Some 1]) []]]]"
    by (simp add: FPNet_sample dict_tensors_def file_globals_def)
  let ?p = "semantic_prediction accept_all [''P4'', ''P3''] [Ext 4, Ext 3] 3 (Some (Ext 9))
              256 256 3 []"
  from semantic_prediction_returns have e: "?p = (Inr (projr (fst ?p)), snd ?p)"
    by (cases "fst ?p") (simp_all add: prod_eq_iff)
  have "\<forall>y s'. ?p = (Inr y, s') \<longrightarrow>
          (\<exists>u sh. y = Out (Softmax (if image_data_format accept_all = ''channels_first''
                                     then 1 else - 1))
                         [Out (TensorProduct 3)
                            [Out (Activation ''relu'' None)
                               [Out (BatchNormalization (- 1))
                                  [Out (TensorProduct 256) [Out (Reshape sh) [u]]]]]])"
    by (rule t[THEN conjunct2, THEN conjunct2, THEN conjunct2, THEN conjunct2, THEN conjunct2,
                THEN conjunct2, THEN conjunct2, THEN conjunct2, THEN conjunct1])
  from this[rule_format, OF e] obtain u sh where
    "projr (fst ?p) = Out (Softmax (- 1))
                         [Out (TensorProduct 3)
                            [Out (Activation ''relu'' None)
                               [Out (BatchNormalization (- 1))
                                  [Out (TensorProduct 256) [Out (Reshape sh) [u]]]]]]"
    by (auto simp: accept_all_def)
  with e have c: "\<exists>u sh. fst ?p =
         Inr (Out (Softmax (- 1))
                [Out (TensorProduct 3)
                   [Out (Activation ''relu'' None)
                      [Out (BatchNormalization (- 1))
                         [Out (TensorProduct 256) [Out (Reshape sh) [u]]]]]])"
    by (metis fst_conv)
  have d: "fst (semantic_upsample accept_all (Ext 0) 2 256 (Some (Ext 1)) []) =
     Inr (Out (UpsampleLike None)
            [Out (Conv2D \<lparr>filters = 256, kernel_size = (3, 3), strides = (1, 1),
                          padding = ''same'', data_format = Some ''channels_last'',
                          conv_name = None\<rparr>)
               [Out (UpSampling2D (2, 2))
                  [Out (Conv2D \<lparr>filters = 256, kernel_size = (3, 3), strides = (1, 1),
                                padding = ''same'', data_format = Some ''channels_last'',
                                conv_name = None\<rparr>) [Ext 0]]],
             Ext 1])"
    unfolding semantic_upsample_sample by (simp add: conv_up_def)
  from d a g b c show ?thesis by (intro conjI)
qed

end
